theory Spec2Isabelle
  imports Complex_Main "HOL-Library.Multiset"
begin

section \<open>Numbers and data\<close>

text \<open>
  A JavaScript Number is a double; the model carries its value, a rational. Comparisons of
  finite doubles are exact, so the colour lookup is modelled without loss. The sums and the
  quotient of the statistics are computed as the program computes them, each operation
  rounding its exact result to the nearest double (below). The pixel sizes of the chart
  layout are kept exact. NaN and the infinities are left out.
\<close>

type_synonym number = rat

text \<open>\<open>Math.round\<close>: the nearest integer, a tie going up.\<close>

definition Math_round :: "number \<Rightarrow> int" where
  "Math_round x = \<lfloor>x + 1 / 2\<rfloor>"

subsection \<open>Double arithmetic\<close>

text \<open>
  A finite double is a rational \<open>n * 2^k\<close> with \<open>|n| < 2^53\<close> and \<open>k \<ge> -1074\<close>. The
  operations \<open>+\<close> and \<open>/\<close> of IEEE 754 return the exact result rounded to the nearest
  double, a tie going to the even significand. \<open>toDouble\<close> is this rounding: for
  \<open>2^e \<le> |x| < 2^(e+1)\<close> the doubles around \<open>x\<close> are the multiples of \<open>2^(e-52)\<close>
  (of \<open>2^(-1074)\<close> in the subnormal range, \<open>e < -1022\<close>). The overflow to \<open>Infinity\<close>,
  from \<open>2^1024\<close> on, is not modelled.
\<close>

text \<open>The number of binary digits of a natural number.\<close>

fun bitLength :: "nat \<Rightarrow> nat" where
  "bitLength n = (if n = 0 then 0 else Suc (bitLength (n div 2)))"

declare bitLength.simps [simp del]

definition pow2 :: "int \<Rightarrow> rat" where
  "pow2 k = (if 0 \<le> k then 2 ^ nat k else 1 / 2 ^ nat (- k))"

text \<open>For \<open>a > 0\<close>, the exponent \<open>e\<close> with \<open>2^e \<le> a < 2^(e+1)\<close>.\<close>

definition binaryExponent :: "rat \<Rightarrow> int" where
  "binaryExponent a =
     (if 1 \<le> a then int (bitLength (nat \<lfloor>a\<rfloor>)) - 1
      else - int (bitLength (nat (\<lceil>1 / a\<rceil> - 1))))"

definition roundHalfEven :: "rat \<Rightarrow> int" where
  "roundHalfEven m =
     (let f = \<lfloor>m\<rfloor>; r = m - of_int f
      in if r < 1 / 2 then f else if 1 / 2 < r then f + 1 else if even f then f else f + 1)"

definition toDouble :: "rat \<Rightarrow> number" where
  "toDouble x =
     (if x = 0 then 0
      else let e = max (binaryExponent \<bar>x\<bar>) (- 1022); q = pow2 (e - 52)
           in of_int (roundHalfEven (x / q)) * q)"

definition double_add :: "number \<Rightarrow> number \<Rightarrow> number" where
  "double_add x y = toDouble (x + y)"

definition double_div :: "number \<Rightarrow> number \<Rightarrow> number" where
  "double_div x y = toDouble (x / y)"

text \<open>
  An entry of \<open>population_data.json\<close>, keyed there by the full name of the region. Its
  numbers are doubles, the nearest ones to the decimal numbers of the document.
\<close>

record popData =
  population :: number
  area :: number
  density :: number

text \<open>
  The properties of a GeoJSON feature. The three numeric properties are optional: the
  merge of \<open>loadData\<close> writes them only for a feature that has a population record.
  The geometry of a feature is not modelled.
\<close>

record feature =
  FULLNAME :: string
  COUNTYNAME :: string
  TOWNNAME :: string
  prop_population :: "number option"
  prop_area :: "number option"
  prop_density :: "number option"

section \<open>Colour scale\<close>

definition COLOR_GRADES :: "number list" where
  "COLOR_GRADES = [0, 10, 500, 1000, 2000, 5000, 10000, 20000, 30000]"

definition COLOR_PALETTE :: "string list" where
  "COLOR_PALETTE =
     [''#ffffff'', ''#f9ece8'', ''#f3d9d1'', ''#e8bfb1'', ''#d9a08c'',
      ''#ca8167'', ''#bb6242'', ''#aa4c2c'', ''#aa4c2c'']"

text \<open>
  The loop of \<open>getColor\<close>, \<open>for (i = ...; i >= 0; i--)\<close>, from index \<open>i\<close> down: the
  index at which it returns, or \<open>None\<close> when it runs past index 0.
\<close>

fun getColor_loop :: "nat \<Rightarrow> number \<Rightarrow> nat option" where
  "getColor_loop 0 d = (if d \<ge> COLOR_GRADES ! 0 then Some 0 else None)"
| "getColor_loop (Suc i) d =
     (if d \<ge> COLOR_GRADES ! Suc i then Some (Suc i) else getColor_loop i d)"

definition getColor :: "number \<Rightarrow> string" where
  "getColor d =
     (case getColor_loop (length COLOR_GRADES - 1) d of
        Some i \<Rightarrow> COLOR_PALETTE ! i
      | None \<Rightarrow> COLOR_PALETTE ! 0)"

text \<open>The index of the palette entry that \<open>getColor\<close> returns.\<close>

definition getColorIndex :: "number \<Rightarrow> nat" where
  "getColorIndex d =
     (case getColor_loop (length COLOR_GRADES - 1) d of Some i \<Rightarrow> i | None \<Rightarrow> 0)"


section \<open>Bar plots (module \<open>BarPlots\<close>)\<close>

text \<open>The objects that \<open>updateBarPlots\<close> pushes into \<open>selectedData\<close>.\<close>

record datum =
  name :: string
  bar_population :: number
  bar_density :: number
  bar_area :: number

datatype chartType = density_type | population_type

text \<open>The result of \<open>getBoundingClientRect\<close> on a container element.\<close>

record bounds =
  width :: number
  height :: number

text \<open>
  What a container holds: nothing yet (\<open>Untouched\<close>, before the first rendering), or what
  \<open>renderChart\<close> leaves in it: the text \<open>Loading...\<close>, the prompt that asks for a
  selection, nothing at all (\<open>Blank\<close>, the early return on a plot area without height), or a
  chart. Of a chart the model keeps the data bound to the bars (in the order of the band
  scale's domain), the layout decision and the sizes computed for it, and the bar colour;
  axes, grid lines, tooltips and transitions are left to D3.
\<close>

record chart =
  bars :: "datum list"
  needsScroll :: bool
  chartInnerWidth :: number
  svgWidth :: number
  effectiveHeight :: number
  innerHeight :: number
  barColor :: string

datatype view = Untouched | Loading | Prompt | Blank | Chart chart

definition margin_top :: number where "margin_top = 20"
definition margin_right :: number where "margin_right = 20"
definition margin_left :: number where "margin_left = 60"
definition maxVisibleBars :: nat where "maxVisibleBars = 15"

definition colors :: "chartType \<Rightarrow> string" where
  "colors t = (case t of density_type \<Rightarrow> ''#E9BB1F'' | population_type \<Rightarrow> ''#629FA4'')"

text \<open>
  \<open>renderChart\<close>, as a function of the container's bounds (\<open>None\<close>: no element with
  that id), the data, the chart type and the container's present content.
\<close>

definition renderChart :: "bounds option \<Rightarrow> datum list \<Rightarrow> chartType \<Rightarrow> view \<Rightarrow> view" where
  "renderChart container data type old =
     (case container of
        None \<Rightarrow> old
      | Some b \<Rightarrow>
          let containerWidth = width b; containerHeight = height b in
          if containerWidth \<le> 0 \<or> containerHeight \<le> 0 then Loading
          else if length data = 0 then Prompt
          else
            let numBars = length data;
                scroll = (numBars > maxVisibleBars);
                bottomMargin = 70;
                scrollbarHeight = 14;
                visibleInnerWidth = containerWidth - margin_left - margin_right;
                barWidthWithPadding = visibleInnerWidth / of_nat maxVisibleBars;
                inner = (if scroll then barWidthWithPadding * of_nat numBars
                         else containerWidth - margin_left - margin_right);
                svgW = (if scroll then inner + margin_left + margin_right else containerWidth);
                effective = (if scroll then containerHeight - scrollbarHeight else containerHeight);
                innerH = effective - margin_top - bottomMargin
            in if innerH \<le> 0 then Blank
               else Chart \<lparr>bars = data, needsScroll = scroll, chartInnerWidth = inner,
                           svgWidth = svgW, effectiveHeight = effective, innerHeight = innerH,
                           barColor = colors type\<rparr>)"

section \<open>Application state\<close>

text \<open>
  The global \<open>state\<close> object, the private state of \<open>BarPlots\<close>, and the part of the page that
  the functions below write. \<open>selectedTownships\<close> is a JavaScript \<open>Set\<close>, which iterates in
  insertion order: a list without repetitions, \<open>add\<close> appending a new element at the end.
  \<open>populationData\<close> is the parsed JSON object, a map from full names to records. The
  Leaflet layers and their styles, the township list and the county buttons are views that
  no function reads back; they are not part of the model.
\<close>

record app =
  geojsonData :: "feature list"
  populationData :: "string \<Rightarrow> popData option"
  selectedTownships :: "string list"
  lastClickTime :: int
  lastClickedTownship :: "string option"
  totalTownships :: nat
  stat_count :: "nat \<times> nat"
  summary_stats_shown :: bool
  stat_population :: number
  stat_area :: int
  stat_density :: int
  btn_export_disabled :: bool
  d3_loaded :: bool
  density_container :: "bounds option"
  population_container :: "bounds option"
  initialized :: bool
  lastData :: "datum list"
  density_bar_plot :: view
  population_bar_plot :: view

definition DOUBLE_CLICK_THRESHOLD :: int where
  "DOUBLE_CLICK_THRESHOLD = 300"

definition Set_has :: "'a \<Rightarrow> 'a list \<Rightarrow> bool" where
  "Set_has x xs = (x \<in> set xs)"

definition Set_add :: "'a \<Rightarrow> 'a list \<Rightarrow> 'a list" where
  "Set_add x xs = (if x \<in> set xs then xs else xs @ [x])"

definition Set_delete :: "'a \<Rightarrow> 'a list \<Rightarrow> 'a list" where
  "Set_delete x xs = removeAll x xs"

subsection \<open>\<open>BarPlots.init\<close> and \<open>BarPlots.update\<close>\<close>

definition BarPlots_init :: "app \<Rightarrow> app" where
  "BarPlots_init s =
     (if initialized s then s
      else if \<not> d3_loaded s then s
      else if density_container s = None \<or> population_container s = None then s
      else s\<lparr>initialized := True,
             density_bar_plot := renderChart (density_container s) [] density_type (density_bar_plot s),
             population_bar_plot :=
               renderChart (population_container s) [] population_type (population_bar_plot s)\<rparr>)"

text \<open>
  \<open>[...lastData].sort((a, b) => b.density - a.density)\<close>: the sort of an array is stable,
  so the result is the stable sort by descending key.
\<close>

definition BarPlots_update :: "datum list \<Rightarrow> app \<Rightarrow> app" where
  "BarPlots_update data s =
     (let s1 = (if \<not> initialized s then BarPlots_init s else s) in
      if \<not> initialized s1 then s1
      else
        let densityData = sort_key (\<lambda>d. - bar_density d) data;
            populationData' = sort_key (\<lambda>d. - bar_population d) data
        in s1\<lparr>lastData := data,
               density_bar_plot :=
                 renderChart (density_container s1) densityData density_type (density_bar_plot s1),
               population_bar_plot :=
                 renderChart (population_container s1) populationData' population_type
                   (population_bar_plot s1)\<rparr>)"

subsection \<open>UI updates\<close>

text \<open>
  The \<open>forEach\<close> of \<open>updateStats\<close>, with its two accumulators: each \<open>+=\<close> is an
  addition of doubles, in the order of the selection.
\<close>

fun sumSelected :: "(string \<Rightarrow> popData option) \<Rightarrow> string list \<Rightarrow> number \<times> number \<Rightarrow> number \<times> number" where
  "sumSelected pd [] acc = acc"
| "sumSelected pd (fullname # rest) (totalPopulation, totalArea) =
     (case pd fullname of
        Some data \<Rightarrow>
          sumSelected pd rest
            (double_add totalPopulation (population data), double_add totalArea (area data))
      | None \<Rightarrow> sumSelected pd rest (totalPopulation, totalArea))"

text \<open>
  \<open>updateStats\<close> writes the counter always, and the three figures of the summary only for a
  selection that is not empty; otherwise it hides the summary and leaves its text as it was.
  The figures are kept as numbers, before \<open>formatNumber\<close> prints them.
\<close>

definition updateStats :: "app \<Rightarrow> app" where
  "updateStats s =
     (let count = length (selectedTownships s);
          s1 = s\<lparr>stat_count := (count, totalTownships s)\<rparr>
      in if count > 0 then
           let (totalPopulation, totalArea) = sumSelected (populationData s) (selectedTownships s) (0, 0);
               avgDensity =
                 (if totalArea > 0 then Math_round (double_div totalPopulation totalArea) else 0)
           in s1\<lparr>summary_stats_shown := True,
                  stat_population := totalPopulation,
                  stat_area := Math_round totalArea,
                  stat_density := avgDensity\<rparr>
         else s1\<lparr>summary_stats_shown := False\<rparr>)"

definition updateExportButton :: "app \<Rightarrow> app" where
  "updateExportButton s = s\<lparr>btn_export_disabled := (length (selectedTownships s) = 0)\<rparr>"

definition selectedData :: "app \<Rightarrow> datum list" where
  "selectedData s =
     List.map_filter
       (\<lambda>fullname. case populationData s fullname of
            Some data \<Rightarrow> Some \<lparr>name = fullname, bar_population = population data,
                               bar_density = density data, bar_area = area data\<rparr>
          | None \<Rightarrow> None)
       (selectedTownships s)"

text \<open>
  \<open>updateBarPlots\<close> collects the selected regions that have a population record and hands
  them to \<open>BarPlots.update\<close>. The module is always defined here, and an exception of D3 is
  caught and logged, so neither changes the state.
\<close>

definition updateBarPlots :: "app \<Rightarrow> app" where
  "updateBarPlots s = BarPlots_update (selectedData s) s"

text \<open>
  \<open>updateUI\<close> also rewrites the township list and the county buttons
  (\<open>updateSelectedList\<close>, \<open>updateCountyButtons\<close>), which are outside the model.
\<close>

definition updateUI :: "app \<Rightarrow> app" where
  "updateUI s = updateBarPlots (updateExportButton (updateStats s))"

subsection \<open>Selection management\<close>

definition selectTownship :: "string \<Rightarrow> bool \<Rightarrow> app \<Rightarrow> app" where
  "selectTownship fullname updateUIFlag s =
     (let s1 = s\<lparr>selectedTownships := Set_add fullname (selectedTownships s)\<rparr>
      in if updateUIFlag then updateUI s1 else s1)"

definition deselectTownship :: "string \<Rightarrow> bool \<Rightarrow> app \<Rightarrow> app" where
  "deselectTownship fullname updateUIFlag s =
     (let s1 = s\<lparr>selectedTownships := Set_delete fullname (selectedTownships s)\<rparr>
      in if updateUIFlag then updateUI s1 else s1)"

definition clearAllSelections :: "app \<Rightarrow> app" where
  "clearAllSelections s = updateUI (s\<lparr>selectedTownships := []\<rparr>)"

definition selectAllTownships :: "app \<Rightarrow> app" where
  "selectAllTownships s =
     updateUI (fold (\<lambda>feature. selectTownship (FULLNAME feature) False) (geojsonData s) s)"

definition countyTownships :: "string \<Rightarrow> feature list \<Rightarrow> string list" where
  "countyTownships countyName fs = map FULLNAME (filter (\<lambda>f. COUNTYNAME f = countyName) fs)"

definition selectCounty :: "string \<Rightarrow> app \<Rightarrow> app" where
  "selectCounty countyName s =
     (let names = countyTownships countyName (geojsonData s);
          allSelected = list_all (\<lambda>n. Set_has n (selectedTownships s)) names;
          s1 = (if allSelected then fold (\<lambda>n. deselectTownship n False) names s
                else fold (\<lambda>n st. if \<not> Set_has n (selectedTownships st)
                                    then selectTownship n False st else st) names s)
      in updateUI s1)"

definition removeTownshipFromList :: "string \<Rightarrow> app \<Rightarrow> app" where
  "removeTownshipFromList fullname s = deselectTownship fullname True s"

subsection \<open>Event handlers\<close>

text \<open>
  \<open>handleClick\<close> and \<open>handleDoubleClick\<close> on the layer of the region \<open>fullname\<close>;
  \<open>currentTime\<close> is the value of \<open>Date.now()\<close>.
\<close>

definition handleClick :: "string \<Rightarrow> int \<Rightarrow> app \<Rightarrow> app" where
  "handleClick fullname currentTime s =
     (if lastClickedTownship s = Some fullname
         \<and> currentTime - lastClickTime s < DOUBLE_CLICK_THRESHOLD
      then s
      else
        let s1 = s\<lparr>lastClickTime := currentTime, lastClickedTownship := Some fullname\<rparr>
        in if \<not> Set_has fullname (selectedTownships s1) then selectTownship fullname True s1
           else s1)"

definition handleDoubleClick :: "string \<Rightarrow> app \<Rightarrow> app" where
  "handleDoubleClick fullname s =
     (if Set_has fullname (selectedTownships s) then deselectTownship fullname True s else s)"

subsection \<open>Data loading and map style\<close>

text \<open>
  The body of the \<open>forEach\<close> in \<open>loadData\<close>: the three numeric properties are written
  only for a feature whose full name has a population record.
\<close>

definition mergeFeature :: "(string \<Rightarrow> popData option) \<Rightarrow> feature \<Rightarrow> feature" where
  "mergeFeature pd f =
     (case pd (FULLNAME f) of
        Some d \<Rightarrow> f\<lparr>prop_population := Some (population d), prop_area := Some (area d),
                     prop_density := Some (density d)\<rparr>
      | None \<Rightarrow> f)"

record border =
  weight :: nat
  color :: string
  opacity :: number

record pathStyle = border +
  fillColor :: string
  fillOpacity :: number

definition BORDER_UNSELECTED :: border where
  "BORDER_UNSELECTED = \<lparr>weight = 1, color = ''#cccccc'', opacity = 8 / 10\<rparr>"

definition BORDER_SELECTED :: border where
  "BORDER_SELECTED = \<lparr>weight = 3, color = ''#000000'', opacity = 1\<rparr>"

text \<open>\<open>feature.properties.density || 0\<close>: a missing property and the number 0 both give 0.\<close>

definition styleFeature :: "app \<Rightarrow> feature \<Rightarrow> pathStyle" where
  "styleFeature s f =
     (let isSelected = Set_has (FULLNAME f) (selectedTownships s);
          dens = (case prop_density f of Some d \<Rightarrow> (if d = 0 then 0 else d) | None \<Rightarrow> 0)
      in \<lparr>weight = (if isSelected then weight BORDER_SELECTED else weight BORDER_UNSELECTED),
          color = (if isSelected then color BORDER_SELECTED else color BORDER_UNSELECTED),
          opacity = (if isSelected then opacity BORDER_SELECTED else opacity BORDER_UNSELECTED),
          fillColor = getColor dens,
          fillOpacity = 8 / 10\<rparr>)"

subsection \<open>Export\<close>

text \<open>
  A row of the export is an object literal: its keys in the order they are written, each
  with its value. The file is kept as its table of cells; joining the cells with commas
  and the rows with line feeds, the byte order mark and the download are not modelled.
\<close>

datatype cell = Str string | Num number | Undefined

type_synonym exportRow = "(string \<times> cell) list"

definition Object_keys :: "exportRow \<Rightarrow> string list" where
  "Object_keys row = map fst row"

definition getProp :: "exportRow \<Rightarrow> string \<Rightarrow> cell" where
  "getProp row h = (case map_of row h of Some c \<Rightarrow> c | None \<Rightarrow> Undefined)"

definition exportRows :: "app \<Rightarrow> exportRow list" where
  "exportRows s =
     List.map_filter
       (\<lambda>fullname.
          case (find (\<lambda>f. FULLNAME f = fullname) (geojsonData s), populationData s fullname) of
            (Some f, Some popData) \<Rightarrow>
              Some [(''Township'', Str fullname),
                    (''County'', Str (COUNTYNAME f)),
                    (''District'', Str (TOWNNAME f)),
                    (''Population'', Num (population popData)),
                    (''Area_km2'', Num (area popData)),
                    (''Density'', Num (density popData))]
          | _ \<Rightarrow> None)
       (selectedTownships s)"

text \<open>
  The outcome of \<open>exportData\<close>: the toast, a download of the table, or the \<open>TypeError\<close> that
  \<open>Object.keys(data[0])\<close> throws when \<open>data\<close> is empty.
\<close>

datatype outcome = Toast | TypeError | Download "cell list list"

definition exportData :: "app \<Rightarrow> outcome" where
  "exportData s =
     (if length (selectedTownships s) = 0 then Toast
      else
        let data = exportRows s in
        case data of
          [] \<Rightarrow> TypeError
        | row0 # _ \<Rightarrow>
            let headers = Object_keys row0
            in Download (map Str headers # map (\<lambda>row. map (getProp row) headers) data))"

definition csvHeader :: "cell list" where
  "csvHeader = [Str ''Township'', Str ''County'', Str ''District'', Str ''Population'',
                Str ''Area_km2'', Str ''Density'']"

subsection \<open>Events\<close>

text \<open>
  The listeners that mutate the selection: \<open>click\<close> and \<open>dblclick\<close> on the layer of a
  region (\<open>onEachFeature\<close>), the buttons \<open>btn-clear\<close> and \<open>btn-select-all\<close>
  (\<open>setupEventListeners\<close>), a county button and the remove button of a listed township
  (the \<open>onclick\<close> attributes written by \<open>updateCountyButtons\<close> and \<open>updateSelectedList\<close>).
\<close>

datatype event =
    Click string int
  | DblClick string
  | ClearButton
  | SelectAllButton
  | CountyButton string
  | RemoveButton string

fun dispatch :: "event \<Rightarrow> app \<Rightarrow> app" where
  "dispatch (Click fullname currentTime) s = handleClick fullname currentTime s"
| "dispatch (DblClick fullname) s = handleDoubleClick fullname s"
| "dispatch ClearButton s = clearAllSelections s"
| "dispatch SelectAllButton s = selectAllTownships s"
| "dispatch (CountyButton countyName) s = selectCounty countyName s"
| "dispatch (RemoveButton fullname) s = removeTownshipFromList fullname s"

definition run :: "event list \<Rightarrow> app \<Rightarrow> app" where
  "run es s = fold dispatch es s"

text \<open>
  A layer exists for each feature of the dataset and for nothing else, so a click carries
  the full name of a feature. The other events may carry any string.
\<close>

fun onFeature :: "feature list \<Rightarrow> event \<Rightarrow> bool" where
  "onFeature fs (Click fullname _) = (fullname \<in> FULLNAME ` set fs)"
| "onFeature fs _ = True"

subsection \<open>A small dataset\<close>

text \<open>
  Two regions of one county with population records, \<open>A\<close> (100 people on 10 square km) and
  \<open>B\<close> (400 on 20), a region \<open>C\<close> of the same county without a record, and a region \<open>D\<close>
  of another county (21 people on 10.5 square km). Nothing is selected, the page has D3 and both
  containers at 800 by 300.
\<close>

definition demoFeatures :: "feature list" where
  "demoFeatures =
     [\<lparr>FULLNAME = ''A'', COUNTYNAME = ''X'', TOWNNAME = ''a'', prop_population = Some 100,
       prop_area = Some 10, prop_density = Some 10\<rparr>,
      \<lparr>FULLNAME = ''B'', COUNTYNAME = ''X'', TOWNNAME = ''b'', prop_population = Some 400,
       prop_area = Some 20, prop_density = Some 20\<rparr>,
      \<lparr>FULLNAME = ''C'', COUNTYNAME = ''X'', TOWNNAME = ''c'', prop_population = None,
       prop_area = None, prop_density = None\<rparr>,
      \<lparr>FULLNAME = ''D'', COUNTYNAME = ''Y'', TOWNNAME = ''d'', prop_population = Some 21,
       prop_area = Some (21 / 2), prop_density = Some 2\<rparr>]"

definition demoPopulation :: "string \<Rightarrow> popData option" where
  "demoPopulation =
     [''A'' \<mapsto> \<lparr>population = 100, area = 10, density = 10\<rparr>,
      ''B'' \<mapsto> \<lparr>population = 400, area = 20, density = 20\<rparr>,
      ''D'' \<mapsto> \<lparr>population = 21, area = 21 / 2, density = 2\<rparr>]"

definition demo :: app where
  "demo =
     \<lparr>geojsonData = demoFeatures, populationData = demoPopulation, selectedTownships = [],
      lastClickTime = 0, lastClickedTownship = None, totalTownships = 4,
      stat_count = (0, 4), summary_stats_shown = False, stat_population = 0, stat_area = 0,
      stat_density = 0, btn_export_disabled = True, d3_loaded = True,
      density_container = Some \<lparr>width = 800, height = 300\<rparr>,
      population_container = Some \<lparr>width = 800, height = 300\<rparr>,
      initialized = False, lastData = [], density_bar_plot = Untouched,
      population_bar_plot = Untouched\<rparr>"

definition demoSelected :: "string list \<Rightarrow> app" where
  "demoSelected names = demo\<lparr>selectedTownships := names\<rparr>"

text \<open>
  A dataset of sixteen regions of one county, each with the same population record, of
  which the first \<open>k\<close> are selected: enough regions to pass the threshold of 15 bars.
\<close>

definition townNames :: "string list" where
  "townNames = [''T01'', ''T02'', ''T03'', ''T04'', ''T05'', ''T06'', ''T07'', ''T08'',
                ''T09'', ''T10'', ''T11'', ''T12'', ''T13'', ''T14'', ''T15'', ''T16'']"

definition manySelected :: "nat \<Rightarrow> app" where
  "manySelected k =
     demo\<lparr>geojsonData :=
            map (\<lambda>n. \<lparr>FULLNAME = n, COUNTYNAME = ''Z'', TOWNNAME = n, prop_population = Some 1,
                       prop_area = Some 1, prop_density = Some 1\<rparr>) townNames,
          populationData :=
            (\<lambda>n. if n \<in> set townNames then Some \<lparr>population = 1, area = 1, density = 1\<rparr>
                 else None),
          selectedTownships := take k townNames,
          totalTownships := 16\<rparr>"

text \<open>
  A dataset with areas that are not dyadic: \<open>P\<close> with 2613 people on 5.36 square km, and
  \<open>Q\<close>, \<open>R\<close>, \<open>S\<close> with 0.7, 1.4 and 1.4 square km. The stored numbers are the doubles
  nearest to the decimal numbers of the JSON document.
\<close>

definition floatPopulation :: "string \<Rightarrow> popData option" where
  "floatPopulation =
     [''P'' \<mapsto> \<lparr>population = 2613, area = toDouble (536 / 100), density = toDouble (4875 / 10)\<rparr>,
      ''Q'' \<mapsto> \<lparr>population = 7, area = toDouble (7 / 10), density = 10\<rparr>,
      ''R'' \<mapsto> \<lparr>population = 14, area = toDouble (14 / 10), density = 10\<rparr>,
      ''S'' \<mapsto> \<lparr>population = 14, area = toDouble (14 / 10), density = 10\<rparr>]"

definition floatSelected :: "string list \<Rightarrow> app" where
  "floatSelected names =
     demo\<lparr>geojsonData :=
            map (\<lambda>n. mergeFeature floatPopulation
                        \<lparr>FULLNAME = n, COUNTYNAME = ''F'', TOWNNAME = n, prop_population = None,
                         prop_area = None, prop_density = None\<rparr>)
              [''P'', ''Q'', ''R'', ''S''],
          populationData := floatPopulation,
          selectedTownships := names\<rparr>"

subsection \<open>What the statistics panel should show\<close>

text \<open>
  The statistics are consistent with the selection when the counter is the number of
  selected regions, the summary is visible exactly for a selection that is not empty, and a
  visible summary shows, for the population records of the selected regions in the order of
  the selection: as total population the running double sum of their populations, which is
  their exact sum when the populations are non-negative integers with a sum below \<open>2^53\<close>;
  as total area the running double sum of their areas, rounded to an integer; and as
  density the rounded double quotient of the two running sums (0 when the total area is not
  positive).
\<close>

definition statsConsistent :: "app \<Rightarrow> bool" where
  "statsConsistent s =
     (let sel = selectedTownships s;
          records = List.map_filter (populationData s) sel;
          totalPopulation = foldl double_add 0 (map population records);
          totalArea = foldl double_add 0 (map area records)
      in fst (stat_count s) = card (set sel)
         \<and> summary_stats_shown s = (sel \<noteq> [])
         \<and> (sel \<noteq> [] \<longrightarrow>
               stat_population s = totalPopulation
               \<and> ((\<forall>r \<in> set records. 0 \<le> population r \<and> of_int \<lfloor>population r\<rfloor> = population r)
                    \<and> (\<Sum>r\<leftarrow>records. population r) < 2 ^ 53
                  \<longrightarrow> stat_population s = (\<Sum>r\<leftarrow>records. population r))
               \<and> stat_area s = Math_round totalArea
               \<and> stat_density s =
                   (if totalArea > 0 then Math_round (double_div totalPopulation totalArea)
                    else 0)))"

section \<open>Properties of the colour scale\<close>

lemma getColor_loop_8:
  "getColor_loop 8 d =
     (if d \<ge> 30000 then Some 8 else if d \<ge> 20000 then Some 7
      else if d \<ge> 10000 then Some 6 else if d \<ge> 5000 then Some 5
      else if d \<ge> 2000 then Some 4 else if d \<ge> 1000 then Some 3
      else if d \<ge> 500 then Some 2 else if d \<ge> 10 then Some 1
      else if d \<ge> 0 then Some 0 else None)"
  by (simp add: eval_nat_numeral COLOR_GRADES_def)

lemma grades_nth:
  "COLOR_GRADES ! 0 = 0" "COLOR_GRADES ! 1 = 10" "COLOR_GRADES ! Suc 0 = 10" "COLOR_GRADES ! 2 = 500"
  "COLOR_GRADES ! 3 = 1000" "COLOR_GRADES ! 4 = 2000" "COLOR_GRADES ! 5 = 5000"
  "COLOR_GRADES ! 6 = 10000" "COLOR_GRADES ! 7 = 20000" "COLOR_GRADES ! 8 = 30000"
  "length COLOR_GRADES = 9"
  by (simp_all add: COLOR_GRADES_def eval_nat_numeral)

lemma less_9_cases:
  "j < (9::nat) \<Longrightarrow> j = 0 \<or> j = 1 \<or> j = 2 \<or> j = 3 \<or> j = 4 \<or> j = 5 \<or> j = 6 \<or> j = 7 \<or> j = 8"
  by arith

lemma getColor_loop_largest:
  assumes "0 \<le> d"
  shows "\<exists>i<length COLOR_GRADES. getColor_loop 8 d = Some i \<and> COLOR_GRADES ! i \<le> d
           \<and> (\<forall>j<length COLOR_GRADES. COLOR_GRADES ! j \<le> d \<longrightarrow> j \<le> i)"
proof -
  have *: "j < 9 \<Longrightarrow> COLOR_GRADES ! j \<le> d \<Longrightarrow> getColor_loop 8 d = Some i \<Longrightarrow> j \<le> i" for i j
    by (drule less_9_cases) (auto simp: grades_nth getColor_loop_8 split: if_splits)
  from assms have "getColor_loop 8 d \<noteq> None"
    by (simp add: getColor_loop_8)
  then obtain i where i: "getColor_loop 8 d = Some i"
    by blast
  then have "i < 9" "COLOR_GRADES ! i \<le> d"
    by (auto simp: getColor_loop_8 grades_nth split: if_splits)
  with i * show ?thesis
    by (auto simp: grades_nth)
qed

lemma getColorIndex_mono: "d \<le> d' \<Longrightarrow> getColorIndex d \<le> getColorIndex d'"
  by (simp add: getColorIndex_def grades_nth getColor_loop_8)



section \<open>Projections of the state\<close>

lemma BarPlots_update_fields [simp]:
  "geojsonData (BarPlots_update data s) = geojsonData s"
  "populationData (BarPlots_update data s) = populationData s"
  "selectedTownships (BarPlots_update data s) = selectedTownships s"
  "lastClickTime (BarPlots_update data s) = lastClickTime s"
  "lastClickedTownship (BarPlots_update data s) = lastClickedTownship s"
  "totalTownships (BarPlots_update data s) = totalTownships s"
  "stat_count (BarPlots_update data s) = stat_count s"
  "summary_stats_shown (BarPlots_update data s) = summary_stats_shown s"
  "stat_population (BarPlots_update data s) = stat_population s"
  "stat_area (BarPlots_update data s) = stat_area s"
  "stat_density (BarPlots_update data s) = stat_density s"
  "btn_export_disabled (BarPlots_update data s) = btn_export_disabled s"
  "d3_loaded (BarPlots_update data s) = d3_loaded s"
  "density_container (BarPlots_update data s) = density_container s"
  "population_container (BarPlots_update data s) = population_container s"
  by (simp_all add: BarPlots_update_def BarPlots_init_def Let_def)

lemma updateStats_fields [simp]:
  "geojsonData (updateStats s) = geojsonData s"
  "populationData (updateStats s) = populationData s"
  "selectedTownships (updateStats s) = selectedTownships s"
  "lastClickTime (updateStats s) = lastClickTime s"
  "lastClickedTownship (updateStats s) = lastClickedTownship s"
  "totalTownships (updateStats s) = totalTownships s"
  "d3_loaded (updateStats s) = d3_loaded s"
  "density_container (updateStats s) = density_container s"
  "population_container (updateStats s) = population_container s"
  "initialized (updateStats s) = initialized s"
  "lastData (updateStats s) = lastData s"
  "density_bar_plot (updateStats s) = density_bar_plot s"
  "population_bar_plot (updateStats s) = population_bar_plot s"
  by (simp_all add: updateStats_def Let_def split: prod.splits)

lemma updateUI_fields [simp]:
  "geojsonData (updateUI s) = geojsonData s"
  "populationData (updateUI s) = populationData s"
  "selectedTownships (updateUI s) = selectedTownships s"
  "lastClickTime (updateUI s) = lastClickTime s"
  "lastClickedTownship (updateUI s) = lastClickedTownship s"
  "totalTownships (updateUI s) = totalTownships s"
  "d3_loaded (updateUI s) = d3_loaded s"
  "density_container (updateUI s) = density_container s"
  "population_container (updateUI s) = population_container s"
  "stat_count (updateUI s) = stat_count (updateStats s)"
  "summary_stats_shown (updateUI s) = summary_stats_shown (updateStats s)"
  "stat_population (updateUI s) = stat_population (updateStats s)"
  "stat_area (updateUI s) = stat_area (updateStats s)"
  "stat_density (updateUI s) = stat_density (updateStats s)"
  by (simp_all add: updateUI_def updateBarPlots_def updateExportButton_def)

lemma set_Set_add [simp]: "set (Set_add x xs) = insert x (set xs)"
  by (auto simp: Set_add_def)

lemma set_Set_delete [simp]: "set (Set_delete x xs) = set xs - {x}"
  by (auto simp: Set_delete_def)

lemma distinct_Set_add [simp]: "distinct xs \<Longrightarrow> distinct (Set_add x xs)"
  by (simp add: Set_add_def)

lemma distinct_Set_delete [simp]: "distinct xs \<Longrightarrow> distinct (Set_delete x xs)"
  by (simp add: Set_delete_def distinct_removeAll)

lemma selectTownship_fields [simp]:
  "selectedTownships (selectTownship n b s) = Set_add n (selectedTownships s)"
  "geojsonData (selectTownship n b s) = geojsonData s"
  "populationData (selectTownship n b s) = populationData s"
  "lastClickTime (selectTownship n b s) = lastClickTime s"
  "lastClickedTownship (selectTownship n b s) = lastClickedTownship s"
  "totalTownships (selectTownship n b s) = totalTownships s"
  by (simp_all add: selectTownship_def Let_def)

lemma deselectTownship_fields [simp]:
  "selectedTownships (deselectTownship n b s) = Set_delete n (selectedTownships s)"
  "geojsonData (deselectTownship n b s) = geojsonData s"
  "populationData (deselectTownship n b s) = populationData s"
  "lastClickTime (deselectTownship n b s) = lastClickTime s"
  "lastClickedTownship (deselectTownship n b s) = lastClickedTownship s"
  "totalTownships (deselectTownship n b s) = totalTownships s"
  by (simp_all add: deselectTownship_def Let_def)

lemma fold_deselect_selected:
  "selectedTownships (fold (\<lambda>n. deselectTownship n False) names s)
     = fold Set_delete names (selectedTownships s)"
  by (induction names arbitrary: s) simp_all

lemma fold_deselect_rest [simp]:
  "geojsonData (fold (\<lambda>n. deselectTownship n False) names s) = geojsonData s"
  "populationData (fold (\<lambda>n. deselectTownship n False) names s) = populationData s"
  "lastClickTime (fold (\<lambda>n. deselectTownship n False) names s) = lastClickTime s"
  "lastClickedTownship (fold (\<lambda>n. deselectTownship n False) names s) = lastClickedTownship s"
  by (induction names arbitrary: s) simp_all

lemma set_fold_Set_delete [simp]: "set (fold Set_delete names xs) = set xs - set names"
  by (induction names arbitrary: xs) auto

lemma distinct_fold_Set_delete [simp]: "distinct xs \<Longrightarrow> distinct (fold Set_delete names xs)"
  by (induction names arbitrary: xs) auto

lemma fold_select_missing [simp]:
  "selectedTownships (fold (\<lambda>n st. if \<not> Set_has n (selectedTownships st)
        then selectTownship n False st else st) names s) = fold Set_add names (selectedTownships s)"
  "geojsonData (fold (\<lambda>n st. if \<not> Set_has n (selectedTownships st)
        then selectTownship n False st else st) names s) = geojsonData s"
  "populationData (fold (\<lambda>n st. if \<not> Set_has n (selectedTownships st)
        then selectTownship n False st else st) names s) = populationData s"
  "lastClickTime (fold (\<lambda>n st. if \<not> Set_has n (selectedTownships st)
        then selectTownship n False st else st) names s) = lastClickTime s"
  "lastClickedTownship (fold (\<lambda>n st. if \<not> Set_has n (selectedTownships st)
        then selectTownship n False st else st) names s) = lastClickedTownship s"
  by (induction names arbitrary: s) (simp_all add: Set_has_def Set_add_def)

lemma fold_selectTownship [simp]:
  "selectedTownships (fold (\<lambda>f. selectTownship (FULLNAME f) False) fs s)
     = fold Set_add (map FULLNAME fs) (selectedTownships s)"
  "geojsonData (fold (\<lambda>f. selectTownship (FULLNAME f) False) fs s) = geojsonData s"
  "populationData (fold (\<lambda>f. selectTownship (FULLNAME f) False) fs s) = populationData s"
  "lastClickTime (fold (\<lambda>f. selectTownship (FULLNAME f) False) fs s) = lastClickTime s"
  "lastClickedTownship (fold (\<lambda>f. selectTownship (FULLNAME f) False) fs s) = lastClickedTownship s"
  by (induction fs arbitrary: s) simp_all

lemma set_fold_Set_add [simp]: "set (fold Set_add names xs) = set xs \<union> set names"
  by (induction names arbitrary: xs) auto

lemma distinct_fold_Set_add [simp]: "distinct xs \<Longrightarrow> distinct (fold Set_add names xs)"
  by (induction names arbitrary: xs) auto

lemma selectCounty_selected:
  "selectedTownships (selectCounty c s) =
     (if set (countyTownships c (geojsonData s)) \<subseteq> set (selectedTownships s)
      then fold Set_delete (countyTownships c (geojsonData s)) (selectedTownships s)
      else fold Set_add (countyTownships c (geojsonData s)) (selectedTownships s))"
proof (cases "set (countyTownships c (geojsonData s)) \<subseteq> set (selectedTownships s)")
  case True
  then have "list_all (\<lambda>n. Set_has n (selectedTownships s)) (countyTownships c (geojsonData s))"
    by (auto simp: list_all_iff Set_has_def)
  with True show ?thesis
    by (simp add: selectCounty_def Let_def fold_deselect_selected)
next
  case False
  then have "\<not> list_all (\<lambda>n. Set_has n (selectedTownships s)) (countyTownships c (geojsonData s))"
    by (auto simp: list_all_iff Set_has_def)
  with False show ?thesis
    by (simp add: selectCounty_def Let_def)
qed

lemma selectCounty_rest [simp]:
  "geojsonData (selectCounty c s) = geojsonData s"
  "populationData (selectCounty c s) = populationData s"
  "lastClickTime (selectCounty c s) = lastClickTime s"
  "lastClickedTownship (selectCounty c s) = lastClickedTownship s"
  by (simp_all add: selectCounty_def Let_def)

lemma set_countyTownships:
  "set (countyTownships c fs) = {FULLNAME f | f. f \<in> set fs \<and> COUNTYNAME f = c}"
  by (auto simp: countyTownships_def)

section \<open>The colour of a region\<close>

text \<open>
  C6: for a density \<open>d \<ge> 0\<close>, \<open>getColor d\<close> is the palette entry at the largest index
  \<open>i\<close> with \<open>COLOR_GRADES[i] \<le> d\<close>; \<open>getColor 0\<close> is the first palette entry; the index
  of the returned entry does not decrease when the density grows; and a negative density
  gets the first palette entry, as 0 does.
\<close>

theorem getColor_largest_grade:
  "(0 \<le> d \<longrightarrow>
      (\<exists>i<length COLOR_GRADES. getColorIndex d = i \<and> getColor d = COLOR_PALETTE ! i
          \<and> COLOR_GRADES ! i \<le> d
          \<and> (\<forall>j<length COLOR_GRADES. COLOR_GRADES ! j \<le> d \<longrightarrow> j \<le> i)))
   \<and> getColor 0 = COLOR_PALETTE ! 0
   \<and> (d1 \<le> d2 \<longrightarrow> getColorIndex d1 \<le> getColorIndex d2)
   \<and> (n < 0 \<longrightarrow> getColor n = COLOR_PALETTE ! 0)"
proof (intro conjI impI)
  assume "0 \<le> d"
  from getColor_loop_largest [OF this]
  show "\<exists>i<length COLOR_GRADES. getColorIndex d = i \<and> getColor d = COLOR_PALETTE ! i
          \<and> COLOR_GRADES ! i \<le> d
          \<and> (\<forall>j<length COLOR_GRADES. COLOR_GRADES ! j \<le> d \<longrightarrow> j \<le> i)"
    by (auto simp: getColor_def getColorIndex_def grades_nth)
next
  show "getColor 0 = COLOR_PALETTE ! 0"
    by (simp add: getColor_def grades_nth getColor_loop_8)
next
  assume "d1 \<le> d2"
  then show "getColorIndex d1 \<le> getColorIndex d2"
    by (rule getColorIndex_mono)
next
  assume "n < 0"
  then show "getColor n = COLOR_PALETTE ! 0"
    by (simp add: getColor_def grades_nth getColor_loop_8)
qed

theorem getColor_largest_grade_witness:
  "(0::rat) \<le> 750 \<and> (750::rat) \<le> 25000 \<and> (- 5 :: rat) < 0
   \<and> getColorIndex 750 = 2 \<and> getColor 750 = ''#f3d9d1''
   \<and> getColorIndex 750 \<le> getColorIndex 25000
   \<and> getColor (- 5) = ''#ffffff''"
  using getColor_largest_grade [of 750 750 25000 "- 5"]
  by (simp add: getColor_def getColorIndex_def grades_nth getColor_loop_8 COLOR_PALETTE_def)

text \<open>
  C10: a feature without a density property is filled with the first palette colour, the
  colour of density 0; this is the case of a feature that has no population record, which
  the merge of \<open>loadData\<close> leaves without the property.
\<close>

theorem styleFeature_missing_density:
  assumes "prop_density f = None"
  shows "fillColor (styleFeature s f) = COLOR_PALETTE ! 0
         \<and> fillColor (styleFeature s f) = getColor 0
         \<and> (pd (FULLNAME f) = None \<longrightarrow>
              fillColor (styleFeature s (mergeFeature pd f)) = COLOR_PALETTE ! 0)"
  using assms
  by (simp add: styleFeature_def mergeFeature_def Let_def getColor_def grades_nth getColor_loop_8)

theorem styleFeature_missing_density_witness:
  "prop_density (demoFeatures ! 2) = None \<and> demoPopulation (FULLNAME (demoFeatures ! 2)) = None
   \<and> fillColor (styleFeature demo (demoFeatures ! 2)) = ''#ffffff''
   \<and> fillColor (styleFeature demo (mergeFeature demoPopulation (demoFeatures ! 2))) = ''#ffffff''"
  using styleFeature_missing_density [of "demoFeatures ! 2" demo demoPopulation]
  by (simp add: demoFeatures_def demoPopulation_def COLOR_PALETTE_def)

section \<open>The selection\<close>

text \<open>
  C1: \<open>selectCounty\<close> works on the full names of the features whose county is the given
  one. When all of them are selected it removes them all from the selection; otherwise it
  adds them all, those already selected staying so. Nothing else in the selection changes.
\<close>

theorem selectCounty_toggle:
  "set (countyTownships countyName (geojsonData s))
     = {FULLNAME f | f. f \<in> set (geojsonData s) \<and> COUNTYNAME f = countyName}
   \<and> set (selectedTownships (selectCounty countyName s)) =
        (if set (countyTownships countyName (geojsonData s)) \<subseteq> set (selectedTownships s)
         then set (selectedTownships s) - set (countyTownships countyName (geojsonData s))
         else set (selectedTownships s) \<union> set (countyTownships countyName (geojsonData s)))"
  by (simp add: selectCounty_selected set_countyTownships)

theorem selectCounty_toggle_witness:
  "set (selectedTownships (selectCounty ''X'' (demoSelected [''A'', ''D'']))) = {''A'', ''B'', ''C'', ''D''}
   \<and> set (selectedTownships (selectCounty ''X'' (demoSelected [''A'', ''B'', ''D'', ''C'']))) = {''D''}"
  using selectCounty_toggle [of "''X''" "demoSelected [''A'', ''D'']", THEN conjunct2]
    selectCounty_toggle [of "''X''" "demoSelected [''A'', ''B'', ''D'', ''C'']", THEN conjunct2]
  by (simp add: demoSelected_def demo_def demoFeatures_def countyTownships_def) auto

text \<open>
  C9: \<open>deselectTownship\<close> on a name that is not selected leaves the selection as it is,
  and deselecting the same name twice gives the selection that deselecting it once gives.
\<close>

theorem deselectTownship_idempotent:
  "(fullname \<notin> set (selectedTownships s) \<longrightarrow>
      selectedTownships (deselectTownship fullname flag s) = selectedTownships s)
   \<and> selectedTownships (deselectTownship fullname flag (deselectTownship fullname flag' s))
       = selectedTownships (deselectTownship fullname flag' s)"
  by (simp add: Set_delete_def)

theorem deselectTownship_idempotent_witness:
  "''B'' \<notin> set (selectedTownships (demoSelected [''A'', ''D'']))
   \<and> selectedTownships (deselectTownship ''B'' True (demoSelected [''A'', ''D''])) = [''A'', ''D'']
   \<and> selectedTownships (deselectTownship ''A'' True (deselectTownship ''A'' True (demoSelected [''A'', ''D''])))
       = [''D'']"
  using deselectTownship_idempotent [of "''B''" "demoSelected [''A'', ''D'']" True True]
    deselectTownship_idempotent [of "''A''" "demoSelected [''A'', ''D'']" True True]
  by (simp add: demoSelected_def demo_def Set_delete_def)

section \<open>Events and the selection\<close>

lemma handleClick_fields [simp]:
  "geojsonData (handleClick n t s) = geojsonData s"
  "populationData (handleClick n t s) = populationData s"
  by (simp_all add: handleClick_def Let_def)

lemma handleClick_selected:
  "selectedTownships (handleClick n t s) =
     (if lastClickedTownship s = Some n \<and> t - lastClickTime s < DOUBLE_CLICK_THRESHOLD
      then selectedTownships s else Set_add n (selectedTownships s))"
  by (simp add: handleClick_def Let_def Set_has_def Set_add_def)

lemma handleClick_last:
  "lastClickedTownship (handleClick n t s) =
     (if lastClickedTownship s = Some n \<and> t - lastClickTime s < DOUBLE_CLICK_THRESHOLD
      then lastClickedTownship s else Some n)"
  "lastClickTime (handleClick n t s) =
     (if lastClickedTownship s = Some n \<and> t - lastClickTime s < DOUBLE_CLICK_THRESHOLD
      then lastClickTime s else t)"
  by (simp_all add: handleClick_def Let_def)

lemma handleDoubleClick_fields [simp]:
  "geojsonData (handleDoubleClick n s) = geojsonData s"
  "populationData (handleDoubleClick n s) = populationData s"
  "lastClickTime (handleDoubleClick n s) = lastClickTime s"
  "lastClickedTownship (handleDoubleClick n s) = lastClickedTownship s"
  "selectedTownships (handleDoubleClick n s) = Set_delete n (selectedTownships s)"
  by (simp_all add: handleDoubleClick_def Set_has_def Set_delete_def)

lemma clearAllSelections_fields [simp]:
  "geojsonData (clearAllSelections s) = geojsonData s"
  "populationData (clearAllSelections s) = populationData s"
  "lastClickTime (clearAllSelections s) = lastClickTime s"
  "lastClickedTownship (clearAllSelections s) = lastClickedTownship s"
  "selectedTownships (clearAllSelections s) = []"
  by (simp_all add: clearAllSelections_def)

lemma selectAllTownships_fields [simp]:
  "geojsonData (selectAllTownships s) = geojsonData s"
  "populationData (selectAllTownships s) = populationData s"
  "lastClickTime (selectAllTownships s) = lastClickTime s"
  "lastClickedTownship (selectAllTownships s) = lastClickedTownship s"
  "selectedTownships (selectAllTownships s)
     = fold Set_add (map FULLNAME (geojsonData s)) (selectedTownships s)"
  by (simp_all add: selectAllTownships_def)

lemma dispatch_fields [simp]:
  "geojsonData (dispatch e s) = geojsonData s"
  "populationData (dispatch e s) = populationData s"
  by (cases e; simp add: removeTownshipFromList_def)+

lemma run_simps [simp]:
  "run [] s = s"
  "run (e # es) s = run es (dispatch e s)"
  by (simp_all add: run_def)

lemma run_fields [simp]:
  "geojsonData (run es s) = geojsonData s"
  "populationData (run es s) = populationData s"
  by (induction es arbitrary: s) simp_all

lemma countyTownships_subset: "set (countyTownships c fs) \<subseteq> FULLNAME ` set fs"
  by (auto simp: countyTownships_def)

lemma dispatch_selection_subset:
  assumes "set (selectedTownships s) \<subseteq> FULLNAME ` set (geojsonData s)"
    and "onFeature (geojsonData s) e"
  shows "set (selectedTownships (dispatch e s)) \<subseteq> FULLNAME ` set (geojsonData s)"
proof (cases e)
  case (Click n t)
  with assms show ?thesis by (auto simp: handleClick_selected)
next
  case (CountyButton c)
  with assms countyTownships_subset [of c "geojsonData s"] show ?thesis
    by (auto simp: selectCounty_selected)
qed (use assms in \<open>auto simp: removeTownshipFromList_def\<close>)

text \<open>
  C4: a click on a region that is not the second click of a double click (another region
  was clicked last, or the last click on this region is 300 ms or more back) leaves the
  region selected; the second click on the same region within 300 ms changes nothing, so
  it never selects; the double click removes the region from the selection and adds
  nothing. Hence click, click within the threshold, double click on \<open>A\<close> ends with \<open>A\<close>
  not selected, and the first click alone ends with \<open>A\<close> selected.
\<close>

theorem click_selects_double_click_deselects:
  "(\<not> (lastClickedTownship s = Some A \<and> t - lastClickTime s < DOUBLE_CLICK_THRESHOLD)
      \<longrightarrow> set (selectedTownships (handleClick A t s)) = insert A (set (selectedTownships s)))
   \<and> (lastClickedTownship s = Some A \<and> t - lastClickTime s < DOUBLE_CLICK_THRESHOLD
      \<longrightarrow> handleClick A t s = s)
   \<and> set (selectedTownships (handleDoubleClick A s)) = set (selectedTownships s) - {A}
   \<and> (\<not> (lastClickedTownship s = Some A \<and> t1 - lastClickTime s < DOUBLE_CLICK_THRESHOLD)
        \<and> t2 - t1 < DOUBLE_CLICK_THRESHOLD
      \<longrightarrow> A \<in> set (selectedTownships (run [Click A t1] s))
          \<and> run [Click A t1, Click A t2] s = run [Click A t1] s
          \<and> set (selectedTownships (run [Click A t1, Click A t2, DblClick A] s))
              = set (selectedTownships s) - {A})"
proof (intro conjI impI)
  assume "\<not> (lastClickedTownship s = Some A \<and> t - lastClickTime s < DOUBLE_CLICK_THRESHOLD)"
  then show "set (selectedTownships (handleClick A t s)) = insert A (set (selectedTownships s))"
    by (auto simp: handleClick_selected)
next
  assume "lastClickedTownship s = Some A \<and> t - lastClickTime s < DOUBLE_CLICK_THRESHOLD"
  then show "handleClick A t s = s"
    by (simp add: handleClick_def)
next
  show "set (selectedTownships (handleDoubleClick A s)) = set (selectedTownships s) - {A}"
    by simp
next
  assume h: "\<not> (lastClickedTownship s = Some A \<and> t1 - lastClickTime s < DOUBLE_CLICK_THRESHOLD)
        \<and> t2 - t1 < DOUBLE_CLICK_THRESHOLD"
  then have first: "set (selectedTownships (handleClick A t1 s)) = insert A (set (selectedTownships s))"
    by (auto simp: handleClick_selected)
  from h have "lastClickedTownship (handleClick A t1 s) = Some A"
    and "lastClickTime (handleClick A t1 s) = t1"
    by (auto simp: handleClick_last)
  with h have second: "handleClick A t2 (handleClick A t1 s) = handleClick A t1 s"
    by (simp add: handleClick_def [of A t2])
  show "A \<in> set (selectedTownships (run [Click A t1] s))"
    using first by simp
  show "run [Click A t1, Click A t2] s = run [Click A t1] s"
    using second by simp
  show "set (selectedTownships (run [Click A t1, Click A t2, DblClick A] s))
          = set (selectedTownships s) - {A}"
    using first second by simp
qed

theorem click_selects_double_click_deselects_witness:
  "\<not> (lastClickedTownship demo = Some ''A'' \<and> 1000 - lastClickTime demo < DOUBLE_CLICK_THRESHOLD)
   \<and> (1200 :: int) - 1000 < DOUBLE_CLICK_THRESHOLD
   \<and> selectedTownships (handleClick ''A'' 1000 demo) = [''A'']
   \<and> lastClickedTownship (handleClick ''A'' 1000 demo) = Some ''A''
   \<and> 1200 - lastClickTime (handleClick ''A'' 1000 demo) < DOUBLE_CLICK_THRESHOLD
   \<and> handleClick ''A'' 1200 (handleClick ''A'' 1000 demo) = handleClick ''A'' 1000 demo
   \<and> set (selectedTownships (run [Click ''A'' 1000, Click ''A'' 1200, DblClick ''A''] demo)) = {}"
proof -
  have d: "lastClickedTownship demo = None" "lastClickTime demo = 0" "selectedTownships demo = []"
    by (simp_all add: demo_def)
  have h1: "\<not> (lastClickedTownship demo = Some ''A''
               \<and> 1000 - lastClickTime demo < DOUBLE_CLICK_THRESHOLD)"
    by (simp add: d)
  have h2: "(1200 :: int) - 1000 < DOUBLE_CLICK_THRESHOLD"
    by (simp add: DOUBLE_CLICK_THRESHOLD_def)
  have h3: "lastClickedTownship (handleClick ''A'' 1000 demo) = Some ''A''
            \<and> 1200 - lastClickTime (handleClick ''A'' 1000 demo) < DOUBLE_CLICK_THRESHOLD"
    by (simp add: handleClick_last d DOUBLE_CLICK_THRESHOLD_def)
  have h4: "selectedTownships (handleClick ''A'' 1000 demo) = [''A'']"
    by (simp add: handleClick_selected d Set_add_def)
  show ?thesis
    using click_selects_double_click_deselects [of demo "''A''" 1000 1000 1200]
      click_selects_double_click_deselects [of "handleClick ''A'' 1000 demo" "''A''" 1200 0 0]
      h1 h2 h3 h4 d
    by simp
qed

text \<open>
  C7: if every selected name is the full name of a feature of the dataset, the same holds
  after any sequence of clicks and double clicks on regions, of the clear and select-all
  buttons, of county buttons and of remove buttons; the dataset itself does not change.
\<close>

theorem selection_within_regions:
  assumes "set (selectedTownships s) \<subseteq> FULLNAME ` set (geojsonData s)"
    and "\<forall>e \<in> set es. onFeature (geojsonData s) e"
  shows "set (selectedTownships (run es s)) \<subseteq> FULLNAME ` set (geojsonData (run es s))
         \<and> geojsonData (run es s) = geojsonData s"
  using assms
proof (induction es arbitrary: s)
  case Nil
  then show ?case by simp
next
  case (Cons e es)
  have "set (selectedTownships (dispatch e s)) \<subseteq> FULLNAME ` set (geojsonData (dispatch e s))"
    using Cons.prems dispatch_selection_subset [of s e] by simp
  moreover have "\<forall>e' \<in> set es. onFeature (geojsonData (dispatch e s)) e'"
    using Cons.prems by simp
  ultimately have "set (selectedTownships (run es (dispatch e s)))
        \<subseteq> FULLNAME ` set (geojsonData (run es (dispatch e s)))"
    using Cons.IH by blast
  then show ?case by simp
qed

theorem selection_within_regions_witness:
  "set (selectedTownships demo) \<subseteq> FULLNAME ` set (geojsonData demo)
   \<and> list_all (onFeature (geojsonData demo))
         [Click ''A'' 1000, CountyButton ''X'', DblClick ''B'', SelectAllButton,
          RemoveButton ''D'', ClearButton, Click ''C'' 5000]
   \<and> selectedTownships (run [Click ''A'' 1000, CountyButton ''X'', DblClick ''B'',
          SelectAllButton, RemoveButton ''D'', ClearButton, Click ''C'' 5000] demo) = [''C'']
   \<and> set (selectedTownships (run [Click ''A'' 1000, CountyButton ''X'', DblClick ''B'',
          SelectAllButton, RemoveButton ''D'', ClearButton, Click ''C'' 5000] demo))
        \<subseteq> FULLNAME ` set (geojsonData (run [Click ''A'' 1000, CountyButton ''X'', DblClick ''B'',
          SelectAllButton, RemoveButton ''D'', ClearButton, Click ''C'' 5000] demo))"
proof -
  have h1: "set (selectedTownships demo) \<subseteq> FULLNAME ` set (geojsonData demo)"
    by (simp add: demo_def)
  have h2: "\<forall>e \<in> set [Click ''A'' 1000, CountyButton ''X'', DblClick ''B'', SelectAllButton,
                   RemoveButton ''D'', ClearButton, Click ''C'' 5000].
          onFeature (geojsonData demo) e"
    by (simp add: demo_def demoFeatures_def)
  have h3: "selectedTownships (run [Click ''A'' 1000, CountyButton ''X'', DblClick ''B'',
          SelectAllButton, RemoveButton ''D'', ClearButton, Click ''C'' 5000] demo) = [''C'']"
    by (simp add: handleClick_selected handleClick_last removeTownshipFromList_def Set_add_def)
  have h4: "list_all (onFeature (geojsonData demo))
         [Click ''A'' 1000, CountyButton ''X'', DblClick ''B'', SelectAllButton,
          RemoveButton ''D'', ClearButton, Click ''C'' 5000]"
    using h2 unfolding list_all_iff .
  from selection_within_regions [OF h1 h2] h1 h3 h4 show ?thesis
    by blast
qed

text \<open>
  C2, as stated, fails: with only \<open>A\<close> of the county \<open>X = {A, B, C}\<close> selected, the first
  call of \<open>selectCounty\<close> selects the whole county and the second deselects it, \<open>A\<close> included.
\<close>

theorem selectCounty_twice_counterexample:
  "set (selectedTownships (selectCounty ''X'' (selectCounty ''X'' (demoSelected [''A'']))))
     \<noteq> set (selectedTownships (demoSelected [''A'']))"
  by (simp add: selectCounty_selected demoSelected_def demo_def demoFeatures_def
        countyTownships_def Set_add_def Set_delete_def)

text \<open>
  C2, amended: two calls of \<open>selectCounty\<close> in a row restore the selection when the county
  was wholly selected or had no selected region before the first call. Whenever the county
  was not wholly selected, the two calls end with the old selection minus all regions of
  the county.
\<close>

theorem selectCounty_twice:
  "(set (countyTownships c (geojsonData s)) \<subseteq> set (selectedTownships s)
      \<or> set (countyTownships c (geojsonData s)) \<inter> set (selectedTownships s) = {}
     \<longrightarrow> set (selectedTownships (selectCounty c (selectCounty c s))) = set (selectedTownships s))
   \<and> (\<not> set (countyTownships c (geojsonData s)) \<subseteq> set (selectedTownships s)
      \<longrightarrow> set (selectedTownships (selectCounty c (selectCounty c s)))
            = set (selectedTownships s) - set (countyTownships c (geojsonData s)))"
  by (auto simp: selectCounty_selected)

theorem selectCounty_twice_witness:
  "set (countyTownships ''X'' (geojsonData (demoSelected [''D''])))
       \<inter> set (selectedTownships (demoSelected [''D''])) = {}
   \<and> set (selectedTownships (selectCounty ''X'' (selectCounty ''X'' (demoSelected [''D''])))) = {''D''}
   \<and> set (countyTownships ''X'' (geojsonData (demoSelected [''C'', ''A'', ''B''])))
       \<subseteq> set (selectedTownships (demoSelected [''C'', ''A'', ''B'']))
   \<and> set (selectedTownships (selectCounty ''X'' (selectCounty ''X'' (demoSelected [''C'', ''A'', ''B'']))))
       = {''A'', ''B'', ''C''}
   \<and> \<not> set (countyTownships ''X'' (geojsonData (demoSelected [''A'', ''D''])))
       \<subseteq> set (selectedTownships (demoSelected [''A'', ''D'']))
   \<and> set (selectedTownships (selectCounty ''X'' (selectCounty ''X'' (demoSelected [''A'', ''D''])))) = {''D''}"
proof -
  have g: "geojsonData (demoSelected xs) = demoFeatures" "selectedTownships (demoSelected xs) = xs" for xs
    by (simp_all add: demoSelected_def demo_def)
  have c: "countyTownships ''X'' demoFeatures = [''A'', ''B'', ''C'']"
    by (simp add: countyTownships_def demoFeatures_def)
  show ?thesis
    using selectCounty_twice [of "''X''" "demoSelected [''D'']"]
      selectCounty_twice [of "''X''" "demoSelected [''C'', ''A'', ''B'']"]
      selectCounty_twice [of "''X''" "demoSelected [''A'', ''D'']"]
    unfolding g c by auto
qed

section \<open>Double arithmetic\<close>

lemma bitLength_le: "n < 2 ^ k \<Longrightarrow> bitLength n \<le> k"
proof (induction k arbitrary: n)
  case 0
  then show ?case by (simp add: bitLength.simps)
next
  case (Suc k)
  from Suc.prems have "n div 2 < 2 ^ k" by simp
  then have "bitLength (n div 2) \<le> k" by (rule Suc.IH)
  then show ?case by (subst bitLength.simps) simp
qed

lemma bitLength_pos: "0 < n \<Longrightarrow> 0 < bitLength n"
  by (subst bitLength.simps) simp

lemma roundHalfEven_of_int: "roundHalfEven (of_int k) = k"
  by (simp add: roundHalfEven_def)

lemma toDouble_of_nat:
  assumes "n < 2 ^ 53"
  shows "toDouble (of_nat n) = of_nat n"
proof (cases "n = 0")
  case True
  then show ?thesis by (simp add: toDouble_def)
next
  case False
  define b where "b = bitLength n"
  from False have b1: "1 \<le> b" using bitLength_pos [of n] by (simp add: b_def)
  from assms have b53: "b \<le> 53" unfolding b_def by (rule bitLength_le)
  from False have x1: "(1::rat) \<le> of_nat n" by simp
  have e: "binaryExponent (of_nat n) = int b - 1"
    using x1 by (simp add: binaryExponent_def b_def)
  have q: "pow2 (int b - 1 - 52) = 1 / 2 ^ (53 - b)"
  proof (cases "b = 53")
    case True
    then show ?thesis by (simp add: pow2_def)
  next
    case False
    with b53 have "b < 53" by simp
    then have "nat (53 - int b) = 53 - b" by simp
    with \<open>b < 53\<close> show ?thesis by (simp add: pow2_def)
  qed
  have m: "of_nat n / (1 / 2 ^ (53 - b)) = (of_int (int n * 2 ^ (53 - b)) :: rat)"
    by simp
  have "toDouble (of_nat n) = of_int (roundHalfEven (of_nat n / pow2 (int b - 1 - 52))) * pow2 (int b - 1 - 52)"
    using False b1 by (simp add: toDouble_def e Let_def max_def)
  also have "\<dots> = of_int (int n * 2 ^ (53 - b)) * (1 / 2 ^ (53 - b))"
    unfolding q m roundHalfEven_of_int ..
  also have "\<dots> = of_nat n"
    by simp
  finally show ?thesis .
qed

lemma toDouble_integer:
  assumes "0 \<le> x" and "of_int \<lfloor>x\<rfloor> = x" and "x < 2 ^ 53"
  shows "toDouble x = x"
proof -
  from assms(1) have "0 \<le> \<lfloor>x\<rfloor>" by simp
  then have x: "x = of_nat (nat \<lfloor>x\<rfloor>)"
    using assms(2) by (metis of_int_of_nat_eq of_nat_nat)
  from assms(3) x have "(of_nat (nat \<lfloor>x\<rfloor>) :: rat) < of_nat (2 ^ 53)"
    by simp
  then have "nat \<lfloor>x\<rfloor> < 2 ^ 53"
    by (simp only: of_nat_less_iff)
  from toDouble_of_nat [OF this] x show ?thesis by simp
qed

lemma foldl_double_add_exact:
  assumes "\<forall>p \<in> set ps. 0 \<le> p \<and> of_int \<lfloor>p\<rfloor> = p"
    and "0 \<le> a" and "of_int \<lfloor>a\<rfloor> = a" and "a + sum_list ps < 2 ^ 53"
  shows "foldl double_add a ps = a + sum_list ps"
  using assms
proof (induction ps arbitrary: a)
  case Nil
  then show ?case by simp
next
  case (Cons p ps)
  from Cons.prems have p: "0 \<le> p" "of_int \<lfloor>p\<rfloor> = p" by simp_all
  from Cons.prems have nn: "0 \<le> sum_list ps"
    by (intro sum_list_nonneg) simp
  have int: "of_int \<lfloor>a + p\<rfloor> = a + p"
    using p(2) Cons.prems(3) by (metis of_int_add of_int_floor_cancel floor_of_int)
  have "a + p < 2 ^ 53"
    using Cons.prems(4) nn by simp
  with p Cons.prems(2) int have step: "double_add a p = a + p"
    by (simp add: double_add_def toDouble_integer)
  have "foldl double_add (a + p) ps = (a + p) + sum_list ps"
    using Cons.prems p int by (intro Cons.IH) (simp_all add: add.assoc)
  with step show ?case by (simp add: add.assoc)
qed

lemma floor_rat_numeral:
  "\<lfloor>numeral a / numeral b :: rat\<rfloor> = numeral a div numeral b"
  by (metis floor_divide_of_int_eq of_int_numeral)

lemma floor_rat_one:
  "\<lfloor>1 / numeral b :: rat\<rfloor> = 1 div numeral b"
  by (metis floor_divide_of_int_eq of_int_1 of_int_numeral)

lemma ceiling_rat_numeral:
  "\<lceil>numeral a / numeral b :: rat\<rceil> = - (- numeral a div numeral b)"
  unfolding ceiling_def by (metis divide_minus_left floor_divide_of_int_eq of_int_neg_numeral of_int_numeral)

lemmas double_eval =
  toDouble_def binaryExponent_def roundHalfEven_def pow2_def Let_def bitLength.simps
  double_add_def double_div_def Math_round_def floor_rat_numeral floor_rat_one
  ceiling_rat_numeral

text \<open>
  The rounding on some decimal numbers: 0.1 is \<open>3602879701896397 / 2^55\<close>, the sum of the
  doubles 0.1 and 0.2 is not the double 0.3, and 2613 / 5.36 is just below 487.5.
\<close>

lemma toDouble_examples:
  "toDouble (1 / 10) = 3602879701896397 / 2 ^ 55"
  "double_add (toDouble (1 / 10)) (toDouble (2 / 10)) = 5404319552844596 / 2 ^ 54"
  "toDouble (3 / 10) = 5404319552844595 / 2 ^ 54"
  "toDouble (7 / 10) = 3152519739159347 / 2 ^ 52"
  "double_div 2613 (toDouble (536 / 100)) = 8576190696652799 / 2 ^ 44"
  "double_div 2613 (toDouble (536 / 100)) < 4875 / 10"
  by (simp_all add: double_eval)

section \<open>The statistics panel\<close>

lemma sumSelected_eq:
  "sumSelected pd xs (p, a) =
     (foldl double_add p (map population (List.map_filter pd xs)),
      foldl double_add a (map area (List.map_filter pd xs)))"
  by (induction xs arbitrary: p a) (simp_all add: map_filter_simps split: option.splits)

lemma total_population_exact:
  assumes "\<forall>r \<in> set rs. 0 \<le> population r \<and> of_int \<lfloor>population r\<rfloor> = population r"
    and "(\<Sum>r\<leftarrow>rs. population r) < 2 ^ 53"
  shows "foldl double_add 0 (map population rs) = (\<Sum>r\<leftarrow>rs. population r)"
  using foldl_double_add_exact [of "map population rs" 0] assms by simp

lemma updateStats_consistent:
  "distinct (selectedTownships s) \<Longrightarrow> statsConsistent (updateStats s)"
  by (simp add: statsConsistent_def updateStats_def Let_def sumSelected_eq distinct_card
        total_population_exact)

lemma statsConsistent_cong:
  "selectedTownships s' = selectedTownships s \<Longrightarrow> populationData s' = populationData s \<Longrightarrow>
   stat_count s' = stat_count s \<Longrightarrow> summary_stats_shown s' = summary_stats_shown s \<Longrightarrow>
   stat_population s' = stat_population s \<Longrightarrow> stat_area s' = stat_area s \<Longrightarrow>
   stat_density s' = stat_density s \<Longrightarrow> statsConsistent s' = statsConsistent s"
  by (simp add: statsConsistent_def)

lemma updateUI_consistent:
  "distinct (selectedTownships s) \<Longrightarrow> statsConsistent (updateUI s)"
  using updateStats_consistent [of s]
  by (simp add: statsConsistent_cong [of "updateUI s" "updateStats s"])

lemma dispatch_distinct:
  "distinct (selectedTownships s) \<Longrightarrow> distinct (selectedTownships (dispatch e s))"
  by (cases e) (simp_all add: handleClick_selected selectCounty_selected removeTownshipFromList_def)

lemma dispatch_consistent:
  assumes "distinct (selectedTownships s)" and "statsConsistent s"
  shows "statsConsistent (dispatch e s)"
proof (cases e)
  case (Click n t)
  have "statsConsistent (s\<lparr>lastClickTime := t, lastClickedTownship := Some n\<rparr>)"
    using assms(2) by (simp add: statsConsistent_def)
  with assms Click show ?thesis
    by (simp add: handleClick_def Let_def selectTownship_def updateUI_consistent)
next
  case (DblClick n)
  with assms show ?thesis
    by (simp add: handleDoubleClick_def deselectTownship_def Let_def updateUI_consistent)
next
  case ClearButton
  then show ?thesis by (simp add: clearAllSelections_def updateUI_consistent)
next
  case SelectAllButton
  with assms show ?thesis by (simp add: selectAllTownships_def updateUI_consistent)
next
  case (CountyButton c)
  with assms show ?thesis
    by (simp add: selectCounty_def Let_def updateUI_consistent fold_deselect_selected)
next
  case (RemoveButton n)
  with assms show ?thesis
    by (simp add: removeTownshipFromList_def deselectTownship_def Let_def updateUI_consistent)
qed

lemma run_consistent:
  "distinct (selectedTownships s) \<Longrightarrow> statsConsistent s \<Longrightarrow>
     statsConsistent (run es s) \<and> distinct (selectedTownships (run es s))"
  by (induction es arbitrary: s) (simp_all add: dispatch_consistent dispatch_distinct)

lemma demo_fields:
  "selectedTownships demo = []" "lastClickedTownship demo = None" "lastClickTime demo = 0"
  "populationData demo = demoPopulation" "geojsonData demo = demoFeatures"
  "totalTownships demo = 4"
  by (simp_all add: demo_def)

lemma floatSelected_fields:
  "selectedTownships (floatSelected xs) = xs" "populationData (floatSelected xs) = floatPopulation"
  "totalTownships (floatSelected xs) = 4"
  by (simp_all add: floatSelected_def demo_def)

text \<open>
  C3, as stated, fails on the total area. The panel shows \<open>Math.round(totalArea)\<close>: with
  only \<open>D\<close> selected (10.5 square km) it shows 11, not the sum of the stored areas. And
  \<open>totalArea\<close> is a running sum of doubles, which depends on the order of selection: for the
  same three regions \<open>Q\<close>, \<open>R\<close>, \<open>S\<close> the panel shows 3 when \<open>Q\<close> was selected first and 4
  when it was selected last. For an empty selection the summary is not set to zeros but
  hidden: after a click on \<open>A\<close> and the clear button its hidden population field still
  holds the 100 of \<open>A\<close>.
\<close>

theorem stats_area_counterexample:
  "selectedTownships (dispatch (Click ''D'' 1000) demo) = [''D'']
   \<and> stat_area (dispatch (Click ''D'' 1000) demo) = 11
   \<and> of_int (stat_area (dispatch (Click ''D'' 1000) demo))
       \<noteq> (\<Sum>n\<leftarrow>selectedTownships (dispatch (Click ''D'' 1000) demo).
             case populationData (dispatch (Click ''D'' 1000) demo) n of
               Some d \<Rightarrow> area d | None \<Rightarrow> 0)
   \<and> set (selectedTownships (updateUI (floatSelected [''Q'', ''R'', ''S''])))
       = set (selectedTownships (updateUI (floatSelected [''R'', ''S'', ''Q''])))
   \<and> stat_area (updateUI (floatSelected [''Q'', ''R'', ''S''])) = 3
   \<and> stat_area (updateUI (floatSelected [''R'', ''S'', ''Q''])) = 4
   \<and> selectedTownships (run [Click ''A'' 1000, ClearButton] demo) = []
   \<and> \<not> summary_stats_shown (run [Click ''A'' 1000, ClearButton] demo)
   \<and> stat_population (run [Click ''A'' 1000, ClearButton] demo) = 100"
proof -
  have d: "stat_area (dispatch (Click ''D'' 1000) demo) = 11"
    "selectedTownships (dispatch (Click ''D'' 1000) demo) = [''D'']"
    "populationData (dispatch (Click ''D'' 1000) demo) = demoPopulation"
    by (simp_all add: handleClick_def Let_def demo_fields Set_has_def Set_add_def
          selectTownship_def updateStats_def demoPopulation_def double_eval)
  have q: "stat_area (updateUI (floatSelected [''Q'', ''R'', ''S''])) = 3"
    by (simp add: floatSelected_fields updateStats_def floatPopulation_def double_eval)
  have r: "stat_area (updateUI (floatSelected [''R'', ''S'', ''Q''])) = 4"
    by (simp add: floatSelected_fields updateStats_def floatPopulation_def double_eval)
  have c: "selectedTownships (run [Click ''A'' 1000, ClearButton] demo) = []"
    "\<not> summary_stats_shown (run [Click ''A'' 1000, ClearButton] demo)"
    "stat_population (run [Click ''A'' 1000, ClearButton] demo) = 100"
    by (simp_all add: handleClick_def Let_def demo_fields Set_has_def Set_add_def
          selectTownship_def clearAllSelections_def updateStats_def demoPopulation_def
          double_eval)
  have s: "set (selectedTownships (updateUI (floatSelected [''Q'', ''R'', ''S''])))
       = set (selectedTownships (updateUI (floatSelected [''R'', ''S'', ''Q''])))"
    by (auto simp: floatSelected_fields)
  show ?thesis
    unfolding d q r using c s by (simp add: demoPopulation_def)
qed

text \<open>
  C3, amended: after each operation that changes the selection (select, deselect, clear,
  select all, select county), and at every moment of a session that starts with
  \<open>updateUI\<close>, the counter is the size of the selection. For a selection that is not empty
  the summary is visible and shows, over the selected regions that have a population
  record, taken in the order of selection: the running double sum of their stored
  populations, which is their exact sum when the populations are non-negative integers
  with a sum below \<open>2^53\<close>; the running double sum of their stored areas, rounded to the
  nearest integer; and, when that sum of areas is positive, the double quotient of the two
  sums rounded to the nearest integer, otherwise 0. For an empty selection the summary is
  hidden.
\<close>

theorem stats_follow_selection:
  assumes "distinct (selectedTownships s)"
  shows "statsConsistent (selectTownship n True s)
         \<and> statsConsistent (deselectTownship n True s)
         \<and> statsConsistent (clearAllSelections s)
         \<and> statsConsistent (selectAllTownships s)
         \<and> statsConsistent (selectCounty c s)
         \<and> statsConsistent (run es (updateUI s))"
proof -
  have "statsConsistent (run es (updateUI s))"
    using run_consistent [of "updateUI s" es] assms by (simp add: updateUI_consistent)
  moreover have "statsConsistent (selectCounty c s)"
    using assms by (simp add: selectCounty_def Let_def updateUI_consistent fold_deselect_selected)
  ultimately show ?thesis
    using assms
    by (simp add: selectTownship_def deselectTownship_def clearAllSelections_def
          selectAllTownships_def Let_def updateUI_consistent)
qed

theorem stats_follow_selection_witness:
  "distinct (selectedTownships demo)
   \<and> statsConsistent (run [Click ''A'' 1000, Click ''B'' 2000] (updateUI demo))
   \<and> selectedTownships (run [Click ''A'' 1000, Click ''B'' 2000] (updateUI demo)) = [''A'', ''B'']
   \<and> stat_count (run [Click ''A'' 1000, Click ''B'' 2000] (updateUI demo)) = (2, 4)
   \<and> summary_stats_shown (run [Click ''A'' 1000, Click ''B'' 2000] (updateUI demo))
   \<and> stat_population (run [Click ''A'' 1000, Click ''B'' 2000] (updateUI demo)) = 500
   \<and> stat_area (run [Click ''A'' 1000, Click ''B'' 2000] (updateUI demo)) = 30
   \<and> stat_density (run [Click ''A'' 1000, Click ''B'' 2000] (updateUI demo)) = 17
   \<and> distinct (selectedTownships (floatSelected []))
   \<and> statsConsistent (run [Click ''P'' 1000] (updateUI (floatSelected [])))
   \<and> stat_population (run [Click ''P'' 1000] (updateUI (floatSelected []))) = 2613
   \<and> stat_area (run [Click ''P'' 1000] (updateUI (floatSelected []))) = 5
   \<and> stat_density (run [Click ''P'' 1000] (updateUI (floatSelected []))) = 487"
proof -
  have f: "lastClickedTownship (floatSelected []) = None"
    by (simp add: floatSelected_def demo_def)
  show ?thesis
    using stats_follow_selection [of demo "''A''" "''X''" "[Click ''A'' 1000, Click ''B'' 2000]"]
      stats_follow_selection [of "floatSelected []" "''P''" "''F''" "[Click ''P'' 1000]"]
    by (simp add: demo_fields floatSelected_fields f handleClick_def Let_def Set_has_def
          Set_add_def selectTownship_def updateStats_def demoPopulation_def floatPopulation_def
          double_eval)
qed

section \<open>Export\<close>

lemma exportRows_length:
  "length (exportRows s) =
     length (filter (\<lambda>n. find (\<lambda>f. FULLNAME f = n) (geojsonData s) \<noteq> None
                         \<and> populationData s n \<noteq> None) (selectedTownships s))"
proof -
  have "(case (x, y) of (Some (f::feature), Some (d::popData)) \<Rightarrow> Some (g f d) | _ \<Rightarrow> None) \<noteq> None
          \<longleftrightarrow> x \<noteq> None \<and> y \<noteq> None" for x y and g :: "feature \<Rightarrow> popData \<Rightarrow> exportRow"
    by (cases x; cases y; simp)
  then show ?thesis
    by (simp add: exportRows_def map_filter_def)
qed

lemma exportRows_nth:
  assumes "i < length names"
    and "names = filter (\<lambda>n. find (\<lambda>f. FULLNAME f = n) (geojsonData s) \<noteq> None
                         \<and> populationData s n \<noteq> None) (selectedTownships s)"
  shows "\<exists>f d. find (\<lambda>f. FULLNAME f = names ! i) (geojsonData s) = Some f
            \<and> populationData s (names ! i) = Some d
            \<and> exportRows s ! i =
                [(''Township'', Str (names ! i)), (''County'', Str (COUNTYNAME f)),
                 (''District'', Str (TOWNNAME f)), (''Population'', Num (population d)),
                 (''Area_km2'', Num (area d)), (''Density'', Num (density d))]"
proof -
  let ?g = "\<lambda>fullname.
          case (find (\<lambda>f. FULLNAME f = fullname) (geojsonData s), populationData s fullname) of
            (Some f, Some popData) \<Rightarrow>
              Some [(''Township'', Str fullname),
                    (''County'', Str (COUNTYNAME f)),
                    (''District'', Str (TOWNNAME f)),
                    (''Population'', Num (population popData)),
                    (''Area_km2'', Num (area popData)),
                    (''Density'', Num (density popData))]
          | _ \<Rightarrow> None"
  have ne: "?g n \<noteq> None \<longleftrightarrow> find (\<lambda>f. FULLNAME f = n) (geojsonData s) \<noteq> None
                         \<and> populationData s n \<noteq> None" for n
    by (cases "find (\<lambda>f. FULLNAME f = n) (geojsonData s)"; cases "populationData s n"; simp)
  have rows: "exportRows s = map (the \<circ> ?g) names"
    unfolding exportRows_def map_filter_def assms(2) ne ..
  from assms(1) have "names ! i \<in> set names" by simp
  then have "find (\<lambda>f. FULLNAME f = names ! i) (geojsonData s) \<noteq> None
             \<and> populationData s (names ! i) \<noteq> None"
    unfolding assms(2) by simp
  then obtain f d where fd: "find (\<lambda>f. FULLNAME f = names ! i) (geojsonData s) = Some f"
      "populationData s (names ! i) = Some d"
    by blast
  from assms(1) have "exportRows s ! i = the (?g (names ! i))"
    by (simp add: rows)
  with fd show ?thesis by simp
qed

lemma demoSelected_fields:
  "selectedTownships (demoSelected xs) = xs" "populationData (demoSelected xs) = demoPopulation"
  "geojsonData (demoSelected xs) = demoFeatures"
  by (simp_all add: demoSelected_def demo_def)

lemma exportData_demo_AC:
  "exportData (demoSelected [''A'', ''C'']) =
     Download [csvHeader, [Str ''A'', Str ''X'', Str ''a'', Num 100, Num 10, Num 10]]"
  by (simp add: exportData_def exportRows_def map_filter_def demoSelected_fields demoFeatures_def
        demoPopulation_def Object_keys_def getProp_def csvHeader_def)

text \<open>
  C5, as stated, fails on the number of rows: with \<open>A\<close> and \<open>C\<close> selected, \<open>C\<close> having no
  population record, the table has the header and the row of \<open>A\<close> only.
\<close>

theorem exportData_rows_counterexample:
  "\<not> (\<exists>rows. exportData (demoSelected [''A'', ''C'']) = Download (csvHeader # rows)
          \<and> length rows = length (selectedTownships (demoSelected [''A'', ''C''])))"
  by (simp add: exportData_demo_AC demoSelected_fields)

text \<open>
  C5, amended: with an empty selection \<open>exportData\<close> shows the toast and produces no file.
  When at least one selected region has both a feature and a population record, it
  produces the table whose first row is the header
  \<open>Township, County, District, Population, Area_km2, Density\<close> and whose other rows are,
  in the order of selection, one row for each selected region that has both, with the
  region's full name, the county and town name of its feature and the population, area
  and density of its record. Selected regions without a record get no row.
\<close>

theorem exportData_table:
  "(selectedTownships s = [] \<longrightarrow> exportData s = Toast)
   \<and> (let names = filter (\<lambda>n. find (\<lambda>f. FULLNAME f = n) (geojsonData s) \<noteq> None
                               \<and> populationData s n \<noteq> None) (selectedTownships s)
      in names \<noteq> [] \<longrightarrow>
           (\<exists>rows. exportData s = Download (csvHeader # rows)
              \<and> length rows = length names
              \<and> (\<forall>i<length names. \<exists>f d.
                    find (\<lambda>f. FULLNAME f = names ! i) (geojsonData s) = Some f
                    \<and> populationData s (names ! i) = Some d
                    \<and> rows ! i = [Str (names ! i), Str (COUNTYNAME f), Str (TOWNNAME f),
                                  Num (population d), Num (area d), Num (density d)])))"
proof (intro conjI impI)
  assume "selectedTownships s = []"
  then show "exportData s = Toast" by (simp add: exportData_def)
next
  define names where "names = filter (\<lambda>n. find (\<lambda>f. FULLNAME f = n) (geojsonData s) \<noteq> None
                               \<and> populationData s n \<noteq> None) (selectedTownships s)"
  define keys where "keys = [''Township'', ''County'', ''District'', ''Population'', ''Area_km2'', ''Density'']"
  have len: "length (exportRows s) = length names"
    by (simp add: exportRows_length names_def)
  have nth: "\<exists>f d. find (\<lambda>f. FULLNAME f = names ! i) (geojsonData s) = Some f
            \<and> populationData s (names ! i) = Some d
            \<and> exportRows s ! i =
                [(''Township'', Str (names ! i)), (''County'', Str (COUNTYNAME f)),
                 (''District'', Str (TOWNNAME f)), (''Population'', Num (population d)),
                 (''Area_km2'', Num (area d)), (''Density'', Num (density d))]"
    if "i < length names" for i
    using exportRows_nth [OF that names_def] .
  have goal: "\<exists>rows. exportData s = Download (csvHeader # rows)
              \<and> length rows = length names
              \<and> (\<forall>i<length names. \<exists>f d.
                    find (\<lambda>f. FULLNAME f = names ! i) (geojsonData s) = Some f
                    \<and> populationData s (names ! i) = Some d
                    \<and> rows ! i = [Str (names ! i), Str (COUNTYNAME f), Str (TOWNNAME f),
                                  Num (population d), Num (area d), Num (density d)])"
    if ne: "names \<noteq> []"
  proof -
    from ne have sel: "selectedTownships s \<noteq> []"
      by (auto simp: names_def)
    from ne len obtain row0 rest where data: "exportRows s = row0 # rest"
      by (cases "exportRows s") auto
    from ne have "0 < length names" by simp
    from nth [OF this] data have keys0: "Object_keys row0 = keys"
      by (auto simp: Object_keys_def keys_def)
    let ?rows = "map (\<lambda>row. map (getProp row) keys) (exportRows s)"
    have "exportData s = Download (csvHeader # ?rows)"
      using sel data keys0 by (simp add: exportData_def csvHeader_def keys_def)
    moreover have "length ?rows = length names"
      by (simp add: len)
    moreover have "\<exists>f d. find (\<lambda>f. FULLNAME f = names ! i) (geojsonData s) = Some f
                    \<and> populationData s (names ! i) = Some d
                    \<and> ?rows ! i = [Str (names ! i), Str (COUNTYNAME f), Str (TOWNNAME f),
                                  Num (population d), Num (area d), Num (density d)]"
      if "i < length names" for i
    proof -
      from nth [OF that] obtain f d where
        "find (\<lambda>f. FULLNAME f = names ! i) (geojsonData s) = Some f"
        "populationData s (names ! i) = Some d"
        "exportRows s ! i =
                [(''Township'', Str (names ! i)), (''County'', Str (COUNTYNAME f)),
                 (''District'', Str (TOWNNAME f)), (''Population'', Num (population d)),
                 (''Area_km2'', Num (area d)), (''Density'', Num (density d))]"
        by blast
      moreover from that len have "?rows ! i = map (getProp (exportRows s ! i)) keys"
        by simp
      ultimately show ?thesis
        by (simp add: keys_def getProp_def)
    qed
    ultimately show ?thesis by blast
  qed
  then show "let names = filter (\<lambda>n. find (\<lambda>f. FULLNAME f = n) (geojsonData s) \<noteq> None
                               \<and> populationData s n \<noteq> None) (selectedTownships s)
      in names \<noteq> [] \<longrightarrow>
           (\<exists>rows. exportData s = Download (csvHeader # rows)
              \<and> length rows = length names
              \<and> (\<forall>i<length names. \<exists>f d.
                    find (\<lambda>f. FULLNAME f = names ! i) (geojsonData s) = Some f
                    \<and> populationData s (names ! i) = Some d
                    \<and> rows ! i = [Str (names ! i), Str (COUNTYNAME f), Str (TOWNNAME f),
                                  Num (population d), Num (area d), Num (density d)]))"
    unfolding names_def Let_def by blast
qed

theorem exportData_table_witness:
  "selectedTownships demo = [] \<and> exportData demo = Toast
   \<and> filter (\<lambda>n. find (\<lambda>f. FULLNAME f = n) (geojsonData (demoSelected [''B'', ''C'', ''A'']))
                    \<noteq> None \<and> populationData (demoSelected [''B'', ''C'', ''A'']) n \<noteq> None)
        (selectedTownships (demoSelected [''B'', ''C'', ''A''])) = [''B'', ''A'']
   \<and> exportData (demoSelected [''B'', ''C'', ''A'']) =
       Download [csvHeader, [Str ''B'', Str ''X'', Str ''b'', Num 400, Num 20, Num 20],
                 [Str ''A'', Str ''X'', Str ''a'', Num 100, Num 10, Num 10]]"
  using exportData_table [of demo] exportData_table [of "demoSelected [''B'', ''C'', ''A'']"]
  by (simp add: exportData_def exportRows_def map_filter_def demoSelected_fields demoFeatures_def
        demoPopulation_def Object_keys_def getProp_def csvHeader_def demo_def)

section \<open>The bar charts\<close>

lemma map_filter_names:
  "map name (List.map_filter
       (\<lambda>fullname. case pd fullname of
            Some data \<Rightarrow> Some \<lparr>name = fullname, bar_population = population data,
                               bar_density = density data, bar_area = area data\<rparr>
          | None \<Rightarrow> None) xs)
     = filter (\<lambda>n. pd n \<noteq> None) xs"
  by (induction xs) (auto simp: map_filter_simps split: option.splits)

lemma selectedData_names:
  "map name (selectedData s) = filter (\<lambda>n. populationData s n \<noteq> None) (selectedTownships s)"
  by (simp add: selectedData_def map_filter_names)

lemma map_filter_records:
  "d \<in> set (List.map_filter
       (\<lambda>fullname. case pd fullname of
            Some data \<Rightarrow> Some \<lparr>name = fullname, bar_population = population data,
                               bar_density = density data, bar_area = area data\<rparr>
          | None \<Rightarrow> None) xs)
   \<Longrightarrow> \<exists>r. pd (name d) = Some r \<and> bar_population d = population r
           \<and> bar_density d = density r \<and> bar_area d = area r"
  by (induction xs) (auto simp: map_filter_simps split: option.splits)

lemma selectedData_records:
  "d \<in> set (selectedData s) \<Longrightarrow>
     \<exists>r. populationData s (name d) = Some r \<and> bar_population d = population r
          \<and> bar_density d = density r \<and> bar_area d = area r"
  unfolding selectedData_def by (rule map_filter_records)

lemma selectedData_after_stats [simp]:
  "selectedData (updateExportButton (updateStats s)) = selectedData s"
  by (simp add: selectedData_def updateExportButton_def)

lemma renderChart_Some_any:
  "renderChart (Some b) data t old = renderChart (Some b) data t old'"
  by (simp add: renderChart_def)

lemma renderChart_Prompt:
  "0 < width b \<Longrightarrow> 0 < height b \<Longrightarrow> renderChart (Some b) [] t old = Prompt"
  by (simp add: renderChart_def)

lemma renderChart_Chart:
  assumes "0 < width b" "0 < height b" "data \<noteq> []"
    and "90 + (if maxVisibleBars < length data then 14 else 0) < height b"
  shows "\<exists>c. renderChart (Some b) data t old = Chart c \<and> bars c = data
           \<and> needsScroll c = (maxVisibleBars < length data)
           \<and> chartInnerWidth c =
               (if maxVisibleBars < length data
                then (width b - 80) / of_nat maxVisibleBars * of_nat (length data)
                else width b - 80)
           \<and> svgWidth c = (if maxVisibleBars < length data then chartInnerWidth c + 80 else width b)"
  using assms
  by (auto simp: renderChart_def Let_def margin_left_def margin_right_def margin_top_def
        split: if_splits)

lemma BarPlots_update_plots:
  assumes "initialized s \<or> d3_loaded s"
    and "density_container s = Some bd" and "population_container s = Some bp"
  shows "density_bar_plot (BarPlots_update data s)
           = renderChart (Some bd) (sort_key (\<lambda>d. - bar_density d) data) density_type Untouched"
    and "population_bar_plot (BarPlots_update data s)
           = renderChart (Some bp) (sort_key (\<lambda>d. - bar_population d) data) population_type Untouched"
  using assms
  by (auto simp: BarPlots_update_def BarPlots_init_def Let_def intro: renderChart_Some_any)

lemma updateUI_plots:
  assumes "initialized s \<or> d3_loaded s"
    and "density_container s = Some bd" and "population_container s = Some bp"
  shows "density_bar_plot (updateUI s)
           = renderChart (Some bd) (sort_key (\<lambda>d. - bar_density d) (selectedData s)) density_type Untouched"
    and "population_bar_plot (updateUI s)
           = renderChart (Some bp) (sort_key (\<lambda>d. - bar_population d) (selectedData s)) population_type Untouched"
proof -
  let ?s = "updateExportButton (updateStats s)"
  have "initialized ?s \<or> d3_loaded ?s" "density_container ?s = Some bd"
    "population_container ?s = Some bp"
    using assms by (simp_all add: updateExportButton_def)
  from BarPlots_update_plots [OF this, of "selectedData ?s"]
  show "density_bar_plot (updateUI s)
           = renderChart (Some bd) (sort_key (\<lambda>d. - bar_density d) (selectedData s)) density_type Untouched"
    and "population_bar_plot (updateUI s)
           = renderChart (Some bp) (sort_key (\<lambda>d. - bar_population d) (selectedData s)) population_type Untouched"
    by (simp_all add: updateUI_def updateBarPlots_def)
qed

lemma sorted_descending:
  fixes f :: "'a \<Rightarrow> rat"
  shows "sorted_wrt (\<lambda>a b. f a \<ge> f b) (sort_key (\<lambda>d. - f d) xs)"
proof -
  have "sorted (map (\<lambda>d. - f d) (sort_key (\<lambda>d. - f d) xs))"
    by (rule sorted_sort_key)
  then show ?thesis
    by (simp add: sorted_map)
qed

lemma demo_page:
  "d3_loaded (demoSelected xs)" "density_container (demoSelected xs) = Some \<lparr>width = 800, height = 300\<rparr>"
  "population_container (demoSelected xs) = Some \<lparr>width = 800, height = 300\<rparr>"
  "d3_loaded demo" "density_container demo = Some \<lparr>width = 800, height = 300\<rparr>"
  "population_container demo = Some \<lparr>width = 800, height = 300\<rparr>"
  by (simp_all add: demoSelected_def demo_def)

lemma selectedData_demo:
  "selectedData demo = []"
  "selectedData (demoSelected [''A'', ''C'']) =
     [\<lparr>name = ''A'', bar_population = 100, bar_density = 10, bar_area = 10\<rparr>]"
  "selectedData (demoSelected [''A'', ''B'', ''C'', ''D'']) =
     [\<lparr>name = ''A'', bar_population = 100, bar_density = 10, bar_area = 10\<rparr>,
      \<lparr>name = ''B'', bar_population = 400, bar_density = 20, bar_area = 20\<rparr>,
      \<lparr>name = ''D'', bar_population = 21, bar_density = 2, bar_area = 21 / 2\<rparr>]"
  by (simp_all add: selectedData_def map_filter_simps demoSelected_fields demo_fields
        demoPopulation_def)

text \<open>
  C8, as stated, fails in two ways. With \<open>A\<close> and \<open>C\<close> selected, \<open>C\<close> having no population
  record, the density chart has a bar for \<open>A\<close> only, so its bars are not the selected
  regions. And with an empty selection a container without size gets the text
  \<open>Loading...\<close>, not the prompt.
\<close>

theorem bar_charts_counterexample:
  "\<not> (\<exists>c. density_bar_plot (updateUI (demoSelected [''A'', ''C''])) = Chart c
          \<and> set (map name (bars c)) = set (selectedTownships (demoSelected [''A'', ''C''])))
   \<and> selectedTownships (demo\<lparr>density_container := Some \<lparr>width = 0, height = 0\<rparr>\<rparr>) = []
   \<and> density_bar_plot (updateUI (demo\<lparr>density_container := Some \<lparr>width = 0, height = 0\<rparr>\<rparr>))
       \<noteq> Prompt"
proof -
  have "density_bar_plot (updateUI (demoSelected [''A'', ''C''])) =
          Chart \<lparr>bars = [\<lparr>name = ''A'', bar_population = 100, bar_density = 10, bar_area = 10\<rparr>],
                 needsScroll = False, chartInnerWidth = 720, svgWidth = 800,
                 effectiveHeight = 300, innerHeight = 210, barColor = ''#E9BB1F''\<rparr>"
    by (simp add: updateUI_plots [OF _ demo_page(2,3)] demo_page selectedData_demo
          renderChart_def Let_def maxVisibleBars_def margin_left_def margin_right_def
          margin_top_def colors_def)
  moreover have "density_bar_plot (updateUI (demo\<lparr>density_container := Some \<lparr>width = 0, height = 0\<rparr>\<rparr>))
       = Loading"
  proof -
    let ?z = "demo\<lparr>density_container := Some \<lparr>width = 0, height = 0\<rparr>\<rparr>"
    have "initialized ?z \<or> d3_loaded ?z" "density_container ?z = Some \<lparr>width = 0, height = 0\<rparr>"
      "population_container ?z = Some \<lparr>width = 800, height = 300\<rparr>"
      by (simp_all add: demo_def)
    from updateUI_plots(1) [OF this] show ?thesis
      by (simp add: renderChart_def)
  qed
  ultimately show ?thesis
    by (simp add: demoSelected_fields demo_def)
qed

text \<open>
  C8, amended: let D3 be loaded (or the module initialised) and both containers exist with
  positive width and height. Then \<open>updateUI\<close> passes to the charts exactly the selected
  regions that have a population record, each with the figures of its record. If there is
  none (so for an empty selection), both containers show the prompt. Otherwise, when the
  containers are high enough for a plot area (more than 90 px, and 14 px more when the
  chart scrolls), each container shows a chart whose bars are those regions, by descending
  density in the one and by descending population in the other; a chart scrolls exactly
  when it has more than 15 bars, its inner width being then one fifteenth of the visible
  inner width for each bar, and the visible inner width otherwise.
\<close>

theorem bar_charts_of_selected_records:
  assumes "initialized s \<or> d3_loaded s"
    and "density_container s = Some bd" and "population_container s = Some bp"
    and "0 < width bd" and "0 < height bd" and "0 < width bp" and "0 < height bp"
  shows "map name (selectedData s)
           = filter (\<lambda>n. populationData s n \<noteq> None) (selectedTownships s)
         \<and> (\<forall>d \<in> set (selectedData s). \<exists>r. populationData s (name d) = Some r
               \<and> bar_population d = population r \<and> bar_density d = density r
               \<and> bar_area d = area r)
         \<and> (selectedData s = [] \<longrightarrow>
               density_bar_plot (updateUI s) = Prompt \<and> population_bar_plot (updateUI s) = Prompt)
         \<and> (selectedData s \<noteq> []
             \<and> 90 + (if maxVisibleBars < length (selectedData s) then 14 else 0) < height bd
             \<and> 90 + (if maxVisibleBars < length (selectedData s) then 14 else 0) < height bp \<longrightarrow>
               (\<exists>cd cp. density_bar_plot (updateUI s) = Chart cd
                  \<and> population_bar_plot (updateUI s) = Chart cp
                  \<and> mset (bars cd) = mset (selectedData s)
                  \<and> sorted_wrt (\<lambda>a b. bar_density a \<ge> bar_density b) (bars cd)
                  \<and> mset (bars cp) = mset (selectedData s)
                  \<and> sorted_wrt (\<lambda>a b. bar_population a \<ge> bar_population b) (bars cp)
                  \<and> needsScroll cd = (maxVisibleBars < length (bars cd))
                  \<and> needsScroll cp = (maxVisibleBars < length (bars cp))
                  \<and> chartInnerWidth cd =
                      (if needsScroll cd
                       then (width bd - 80) / of_nat maxVisibleBars * of_nat (length (bars cd))
                       else width bd - 80)
                  \<and> chartInnerWidth cp =
                      (if needsScroll cp
                       then (width bp - 80) / of_nat maxVisibleBars * of_nat (length (bars cp))
                       else width bp - 80)))"
proof (intro conjI impI ballI)
  show "map name (selectedData s)
           = filter (\<lambda>n. populationData s n \<noteq> None) (selectedTownships s)"
    by (rule selectedData_names)
next
  fix d assume "d \<in> set (selectedData s)"
  then show "\<exists>r. populationData s (name d) = Some r
               \<and> bar_population d = population r \<and> bar_density d = density r
               \<and> bar_area d = area r"
    by (rule selectedData_records)
next
  assume "selectedData s = []"
  then show "density_bar_plot (updateUI s) = Prompt" "population_bar_plot (updateUI s) = Prompt"
    using assms by (simp_all add: updateUI_plots [OF assms(1-3)] renderChart_Prompt)
next
  let ?dd = "sort_key (\<lambda>d. - bar_density d) (selectedData s)"
  let ?pd = "sort_key (\<lambda>d. - bar_population d) (selectedData s)"
  assume h: "selectedData s \<noteq> []
             \<and> 90 + (if maxVisibleBars < length (selectedData s) then 14 else 0) < height bd
             \<and> 90 + (if maxVisibleBars < length (selectedData s) then 14 else 0) < height bp"
  then have "?dd \<noteq> []" "?pd \<noteq> []"
    by (metis length_sort length_0_conv)+
  moreover from h have "90 + (if maxVisibleBars < length ?dd then 14 else 0) < height bd"
    "90 + (if maxVisibleBars < length ?pd then 14 else 0) < height bp"
    by simp_all
  ultimately obtain cd cp where
    cd: "renderChart (Some bd) ?dd density_type Untouched = Chart cd" "bars cd = ?dd"
      "needsScroll cd = (maxVisibleBars < length ?dd)"
      "chartInnerWidth cd = (if maxVisibleBars < length ?dd
                then (width bd - 80) / of_nat maxVisibleBars * of_nat (length ?dd)
                else width bd - 80)"
    and cp: "renderChart (Some bp) ?pd population_type Untouched = Chart cp" "bars cp = ?pd"
      "needsScroll cp = (maxVisibleBars < length ?pd)"
      "chartInnerWidth cp = (if maxVisibleBars < length ?pd
                then (width bp - 80) / of_nat maxVisibleBars * of_nat (length ?pd)
                else width bp - 80)"
    using renderChart_Chart [OF assms(4,5), of ?dd density_type Untouched]
      renderChart_Chart [OF assms(6,7), of ?pd population_type Untouched]
    by blast
  have "density_bar_plot (updateUI s) = Chart cd" "population_bar_plot (updateUI s) = Chart cp"
    by (simp_all add: updateUI_plots [OF assms(1-3)] cd cp)
  moreover have "mset (bars cd) = mset (selectedData s)" "mset (bars cp) = mset (selectedData s)"
    by (simp_all add: cd cp)
  moreover have "sorted_wrt (\<lambda>a b. bar_density a \<ge> bar_density b) (bars cd)"
    "sorted_wrt (\<lambda>a b. bar_population a \<ge> bar_population b) (bars cp)"
    unfolding cd cp by (rule sorted_descending)+
  ultimately show "\<exists>cd cp. density_bar_plot (updateUI s) = Chart cd
                  \<and> population_bar_plot (updateUI s) = Chart cp
                  \<and> mset (bars cd) = mset (selectedData s)
                  \<and> sorted_wrt (\<lambda>a b. bar_density a \<ge> bar_density b) (bars cd)
                  \<and> mset (bars cp) = mset (selectedData s)
                  \<and> sorted_wrt (\<lambda>a b. bar_population a \<ge> bar_population b) (bars cp)
                  \<and> needsScroll cd = (maxVisibleBars < length (bars cd))
                  \<and> needsScroll cp = (maxVisibleBars < length (bars cp))
                  \<and> chartInnerWidth cd =
                      (if needsScroll cd
                       then (width bd - 80) / of_nat maxVisibleBars * of_nat (length (bars cd))
                       else width bd - 80)
                  \<and> chartInnerWidth cp =
                      (if needsScroll cp
                       then (width bp - 80) / of_nat maxVisibleBars * of_nat (length (bars cp))
                       else width bp - 80)"
    using cd cp by (intro exI [of _ cd] exI [of _ cp]) simp
qed

lemma manySelected_page:
  "initialized (manySelected k) \<or> d3_loaded (manySelected k)"
  "density_container (manySelected k) = Some \<lparr>width = 800, height = 300\<rparr>"
  "population_container (manySelected k) = Some \<lparr>width = 800, height = 300\<rparr>"
  by (simp_all add: manySelected_def demo_def)

lemma manySelected_data:
  "length (selectedData (manySelected 16)) = 16"
  "length (selectedData (manySelected 15)) = 15"
proof -
  have "length (selectedData s) = length (filter (\<lambda>n. populationData s n \<noteq> None) (selectedTownships s))" for s
    using selectedData_names [of s, THEN arg_cong, of length] by simp
  then show "length (selectedData (manySelected 16)) = 16"
    "length (selectedData (manySelected 15)) = 15"
    by (simp_all add: manySelected_def townNames_def)
qed

theorem bar_charts_of_selected_records_witness:
  "(initialized demo \<or> d3_loaded demo)
   \<and> density_container demo = Some \<lparr>width = 800, height = 300\<rparr>
   \<and> population_container demo = Some \<lparr>width = 800, height = 300\<rparr>
   \<and> selectedData demo = []
   \<and> density_bar_plot (updateUI demo) = Prompt
   \<and> population_bar_plot (updateUI demo) = Prompt
   \<and> map name (selectedData (demoSelected [''A'', ''B'', ''C'', ''D''])) = [''A'', ''B'', ''D'']
   \<and> density_bar_plot (updateUI (demoSelected [''A'', ''B'', ''C'', ''D''])) =
        Chart \<lparr>bars = [\<lparr>name = ''B'', bar_population = 400, bar_density = 20, bar_area = 20\<rparr>,
                       \<lparr>name = ''A'', bar_population = 100, bar_density = 10, bar_area = 10\<rparr>,
                       \<lparr>name = ''D'', bar_population = 21, bar_density = 2, bar_area = 21 / 2\<rparr>],
               needsScroll = False, chartInnerWidth = 720, svgWidth = 800,
               effectiveHeight = 300, innerHeight = 210, barColor = ''#E9BB1F''\<rparr>
   \<and> population_bar_plot (updateUI (demoSelected [''A'', ''B'', ''C'', ''D''])) =
        Chart \<lparr>bars = [\<lparr>name = ''B'', bar_population = 400, bar_density = 20, bar_area = 20\<rparr>,
                       \<lparr>name = ''A'', bar_population = 100, bar_density = 10, bar_area = 10\<rparr>,
                       \<lparr>name = ''D'', bar_population = 21, bar_density = 2, bar_area = 21 / 2\<rparr>],
               needsScroll = False, chartInnerWidth = 720, svgWidth = 800,
               effectiveHeight = 300, innerHeight = 210, barColor = ''#629FA4''\<rparr>
   \<and> (\<exists>c. density_bar_plot (updateUI (manySelected 16)) = Chart c \<and> length (bars c) = 16
        \<and> needsScroll c \<and> chartInnerWidth c = 768)
   \<and> (\<exists>c. density_bar_plot (updateUI (manySelected 15)) = Chart c \<and> length (bars c) = 15
        \<and> \<not> needsScroll c \<and> chartInnerWidth c = 720)"
proof -
  have small:
    "(initialized demo \<or> d3_loaded demo)
   \<and> density_container demo = Some \<lparr>width = 800, height = 300\<rparr>
   \<and> population_container demo = Some \<lparr>width = 800, height = 300\<rparr>
   \<and> selectedData demo = []
   \<and> density_bar_plot (updateUI demo) = Prompt
   \<and> population_bar_plot (updateUI demo) = Prompt
   \<and> map name (selectedData (demoSelected [''A'', ''B'', ''C'', ''D''])) = [''A'', ''B'', ''D'']
   \<and> density_bar_plot (updateUI (demoSelected [''A'', ''B'', ''C'', ''D''])) =
        Chart \<lparr>bars = [\<lparr>name = ''B'', bar_population = 400, bar_density = 20, bar_area = 20\<rparr>,
                       \<lparr>name = ''A'', bar_population = 100, bar_density = 10, bar_area = 10\<rparr>,
                       \<lparr>name = ''D'', bar_population = 21, bar_density = 2, bar_area = 21 / 2\<rparr>],
               needsScroll = False, chartInnerWidth = 720, svgWidth = 800,
               effectiveHeight = 300, innerHeight = 210, barColor = ''#E9BB1F''\<rparr>
   \<and> population_bar_plot (updateUI (demoSelected [''A'', ''B'', ''C'', ''D''])) =
        Chart \<lparr>bars = [\<lparr>name = ''B'', bar_population = 400, bar_density = 20, bar_area = 20\<rparr>,
                       \<lparr>name = ''A'', bar_population = 100, bar_density = 10, bar_area = 10\<rparr>,
                       \<lparr>name = ''D'', bar_population = 21, bar_density = 2, bar_area = 21 / 2\<rparr>],
               needsScroll = False, chartInnerWidth = 720, svgWidth = 800,
               effectiveHeight = 300, innerHeight = 210, barColor = ''#629FA4''\<rparr>"
  proof -
    have b: "(0::rat) < width \<lparr>width = 800, height = 300\<rparr>" "(0::rat) < height \<lparr>width = 800, height = 300\<rparr>"
      by simp_all
    have i: "initialized demo \<or> d3_loaded demo"
      "initialized (demoSelected [''A'', ''B'', ''C'', ''D'']) \<or> d3_loaded (demoSelected [''A'', ''B'', ''C'', ''D''])"
      by (simp_all add: demo_page)
    show ?thesis
      using bar_charts_of_selected_records [OF i(1) demo_page(5,6) b b]
        bar_charts_of_selected_records [OF i(2) demo_page(2,3) b b]
      by (simp add: updateUI_plots [OF _ demo_page(2,3)] updateUI_plots [OF _ demo_page(5,6)]
            demo_page selectedData_demo renderChart_def Let_def maxVisibleBars_def
            margin_left_def margin_right_def margin_top_def colors_def)
  qed
  have many:
    "(\<exists>c. density_bar_plot (updateUI (manySelected 16)) = Chart c \<and> length (bars c) = 16
        \<and> needsScroll c \<and> chartInnerWidth c = 768)
   \<and> (\<exists>c. density_bar_plot (updateUI (manySelected 15)) = Chart c \<and> length (bars c) = 15
        \<and> \<not> needsScroll c \<and> chartInnerWidth c = 720)"
  proof -
    have b: "(0::rat) < width \<lparr>width = 800, height = 300\<rparr>" "(0::rat) < height \<lparr>width = 800, height = 300\<rparr>"
      by simp_all
    have len: "length (bars c) = length (selectedData s)" if "mset (bars c) = mset (selectedData s)" for c s
      using that by (rule mset_eq_length)
    have n16: "selectedData (manySelected 16) \<noteq> []" and n15: "selectedData (manySelected 15) \<noteq> []"
      using manySelected_data by auto
    from bar_charts_of_selected_records [OF manySelected_page [of 16] b b] n16
    obtain c16 where "density_bar_plot (updateUI (manySelected 16)) = Chart c16"
      "mset (bars c16) = mset (selectedData (manySelected 16))"
      "needsScroll c16 = (maxVisibleBars < length (bars c16))"
      "chartInnerWidth c16 =
                        (if needsScroll c16
                         then (width \<lparr>width = 800, height = 300\<rparr> - 80) / of_nat maxVisibleBars * of_nat (length (bars c16))
                         else width \<lparr>width = 800, height = 300\<rparr> - 80)"
      by (auto simp: manySelected_data maxVisibleBars_def)
    moreover
    from bar_charts_of_selected_records [OF manySelected_page [of 15] b b] n15
    obtain c15 where "density_bar_plot (updateUI (manySelected 15)) = Chart c15"
      "mset (bars c15) = mset (selectedData (manySelected 15))"
      "needsScroll c15 = (maxVisibleBars < length (bars c15))"
      "chartInnerWidth c15 =
                        (if needsScroll c15
                         then (width \<lparr>width = 800, height = 300\<rparr> - 80) / of_nat maxVisibleBars * of_nat (length (bars c15))
                         else width \<lparr>width = 800, height = 300\<rparr> - 80)"
      by (auto simp: manySelected_data maxVisibleBars_def)
    ultimately show ?thesis
      using len [of c16 "manySelected 16"] len [of c15 "manySelected 15"]
      by (simp add: manySelected_data maxVisibleBars_def)
  qed
  from small many show ?thesis
    by (intro conjI) (elim conjE, assumption)+
qed

end
